theory Spec2Isabelle
  imports Main
begin

section \<open>Go library functions used by the conversion pipeline\<close>

text \<open>
  Go strings are byte sequences; they are modelled as \<^typ>\<open>string\<close>.  Go's \<open>int\<close> and
  \<open>int64\<close> are modelled as \<^typ>\<open>int\<close>; the only place where the width matters is
  \<open>strconv.Atoi\<close>, whose range check (64-bit \<open>int\<close>) is written out.
\<close>

subsection \<open>Package strings\<close>

text \<open>
  \<open>strings.ToLower\<close> and \<open>strings.ToUpper\<close> on the ASCII letters.  Bytes outside
  \<open>A..Z\<close> (respectively \<open>a..z\<close>) are left as they are: Go maps non-ASCII code points
  through the Unicode tables, but none of them is mapped to a letter that occurs in the
  extensions and mode names compared below.
\<close>

definition toLowerChar :: "char \<Rightarrow> char" where
  "toLowerChar c =
     (let n = (of_char c :: nat) in if 65 \<le> n \<and> n \<le> 90 then char_of (n + 32) else c)"

definition toUpperChar :: "char \<Rightarrow> char" where
  "toUpperChar c =
     (let n = (of_char c :: nat) in if 97 \<le> n \<and> n \<le> 122 then char_of (n - 32) else c)"

definition ToLower :: "string \<Rightarrow> string" where
  "ToLower s = map toLowerChar s"

definition ToUpper :: "string \<Rightarrow> string" where
  "ToUpper s = map toUpperChar s"

text \<open>\<open>strings.HasSuffix(s, suffix)\<close>.\<close>

definition HasSuffix :: "string \<Rightarrow> string \<Rightarrow> bool" where
  "HasSuffix s suffix =
     (length suffix \<le> length s \<and> drop (length s - length suffix) s = suffix)"

subsection \<open>Packages path and path/filepath\<close>

text \<open>
  \<open>filepath.Ext\<close>: scan from the end of the path, stop at the first separator (the
  slash, as on Unix); the extension starts at the last dot of the final element, and is
  empty without a dot.
  The argument \<open>acc\<close> is the part of the path already scanned, \<open>path[i+1:]\<close>.
\<close>

fun extScan :: "string \<Rightarrow> string \<Rightarrow> string" where
  "extScan [] acc = []"
| "extScan (c # front) acc =
     (if c = CHR ''/'' then []
      else if c = CHR ''.'' then c # acc
      else extScan front (c # acc))"

definition Ext :: "string \<Rightarrow> string" where
  "Ext path = extScan (rev path) []"

text \<open>
  \<open>path.Base\<close>: the last element of the path.  Trailing slashes are stripped first;
  the empty path gives \<open>"."\<close>, a path of slashes only gives \<open>"/"\<close>.
\<close>

definition Base :: "string \<Rightarrow> string" where
  "Base path =
     (if path = [] then ''.''
      else
        let stripped = rev (dropWhile (\<lambda>c. c = CHR ''/'') (rev path));
            last_elem = rev (takeWhile (\<lambda>c. c \<noteq> CHR ''/'') (rev stripped))
        in if last_elem = [] then ''/'' else last_elem)"

subsection \<open>Package strconv\<close>

definition isDigit :: "char \<Rightarrow> bool" where
  "isDigit c = (let n = (of_char c :: nat) in 48 \<le> n \<and> n \<le> 57)"

definition digitsValue :: "string \<Rightarrow> int" where
  "digitsValue ds = foldl (\<lambda>n ch. n * 10 + (int (of_char ch) - 48)) 0 ds"

text \<open>
  \<open>strconv.Atoi\<close>: an optional sign, then one or more decimal digits and nothing else;
  the value has to fit a 64-bit \<open>int\<close>.  \<open>None\<close> stands for the returned
  \<open>*NumError\<close> (syntax or range).
\<close>

definition Atoi :: "string \<Rightarrow> int option" where
  "Atoi s0 =
     (case s0 of
        [] \<Rightarrow> None
      | c # rest \<Rightarrow>
          let s = (if c = CHR ''-'' \<or> c = CHR ''+'' then rest else s0) in
          if s = [] \<or> \<not> list_all isDigit s then None
          else
            let n = digitsValue s;
                v = (if c = CHR ''-'' then - n else n)
            in if v < - (2 ^ 63) \<or> 2 ^ 63 - 1 < v then None else Some v)"

text \<open>\<open>strconv.ParseBool\<close> accepts exactly twelve spellings.\<close>

definition ParseBool :: "string \<Rightarrow> bool option" where
  "ParseBool str =
     (if str \<in> {''1'', ''t'', ''T'', ''TRUE'', ''true'', ''True''} then Some True
      else if str \<in> {''0'', ''f'', ''F'', ''FALSE'', ''false'', ''False''} then Some False
      else None)"

subsection \<open>Package net/url\<close>

text \<open>
  \<open>url.Values\<close> is \<open>map[string][]string\<close>; \<open>Get\<close> returns the first value of the
  key, and the empty string when the key has no value.
\<close>

type_synonym Values = "string \<rightharpoonup> string list"

definition Get :: "Values \<Rightarrow> string \<Rightarrow> string" where
  "Get v key = (case v key of None \<Rightarrow> [] | Some [] \<Rightarrow> [] | Some (x # _) \<Rightarrow> x)"

section \<open>Errors and sinks\<close>

text \<open>
  One constructor for each error the repository builds with \<open>fmt.Errorf\<close>, carrying the
  values it formats into the message; \<open>External\<close> is an error returned by a library
  (net/http, os, io, the pipe).
\<close>

datatype error =
    BitDepthNotSupported int
  | ChannelModeNotSupported int
  | VBRQualityNotSupported int
  | BitRateNotSupported int int int
  | VBRModeNotSupported string
  | BitRateModeNotSupported string
  | MP3QualityNotSupported int
  | UnsupportedExtension string
  | FormatNotSupported string
  | UnsupportedFormat string
  | ProvideBitRateMode
  | NotProvided string
  | FailedParsing string string
  | FailedToBuildPipe error
  | FailedToExecutePipe error
  | FailedToResetTempFile error
  | FailedToGetFileStats error
  | FailedToTransferFile error
  | RequestBodyTooLarge
  | External string

text \<open>\<open>mp3.VBR(bitRate)\<close>, \<open>mp3.CBR(bitRate)\<close>, \<open>mp3.ABR(bitRate)\<close>.\<close>

datatype BitRateMode = VBR int | CBR int | ABR int

text \<open>
  \<open>wav.Sink\<close> and \<open>mp3.Sink\<close> as the builders fill them; \<open>Quality\<close> is what
  \<open>SetQuality\<close> stores and \<open>None\<close> when it was never called.  The type \<open>'w\<close> is
  the \<open>io.WriteSeeker\<close>.
\<close>

datatype 'w Sink =
    WavSink (BitDepth: int) (WriteSeeker: 'w)
  | Mp3Sink (BitRateMode: BitRateMode) (ChannelMode: int) (Writer: 'w) (Quality: "int option")

definition SetQuality :: "int \<Rightarrow> 'w Sink \<Rightarrow> 'w Sink" where
  "SetQuality q s =
     (case s of Mp3Sink brm cm ws _ \<Rightarrow> Mp3Sink brm cm ws (Some q) | WavSink bd ws \<Rightarrow> WavSink bd ws)"

text \<open>
  The closures returned by the builders (\<open>BuildFunc\<close>, \<open>BuildSinkFunc\<close>) are
  represented by the variables they capture; \<open>build\<close> is the call of the closure on the
  writer.
\<close>

datatype BuildFunc =
    WavBuild int
  | Mp3Build BitRateMode int bool int

fun build :: "BuildFunc \<Rightarrow> 'w \<Rightarrow> 'w Sink" where
  "build (WavBuild bd) ws = WavSink bd ws"
| "build (Mp3Build brm cm useQuality quality) ws =
     (let s = Mp3Sink brm cm ws None
      in if useQuality then SetQuality quality s else s)"

section \<open>Format tables and sink builders (packages input and file)\<close>

text \<open>
  The types \<open>signal.BitDepth\<close> and \<open>mp3.ChannelMode\<close> and their constants come
  from the libraries signal and mp3.  The conversions \<open>signal.BitDepth(bitDepth)\<close> and
  \<open>mp3.ChannelMode(channelMode)\<close> keep the number; the bit depth constants are the
  numbers 8, 16, 24 and 32, and the channel modes are numbered as the mp3 command
  documents its flag (\<open>0 - mono, 1 - stereo, 2 - joint stereo\<close>).  The general facts
  below speak of the set \<open>ChannelModes\<close> and do not depend on the numbering.
\<close>

definition BitDepth8 :: int where "BitDepth8 = 8"
definition BitDepth16 :: int where "BitDepth16 = 16"
definition BitDepth24 :: int where "BitDepth24 = 24"
definition BitDepth32 :: int where "BitDepth32 = 32"

definition Mono :: int where "Mono = 0"
definition Stereo :: int where "Stereo = 1"
definition JointStereo :: int where "JointStereo = 2"

text \<open>
  The format structs.  Package input keeps \<open>Extensions\<close> as a slice and package file
  as a set-like map; both are given here by the list of their members.
\<close>

record wavFormat =
  wavDefaultExtension :: string
  wavExtensions :: "string list"
  BitDepths :: "int set"

record mp3Format =
  mp3DefaultExtension :: string
  mp3Extensions :: "string list"
  MaxBitRate :: int
  MinBitRate :: int
  ChannelModes :: "int set"
  VBRname :: string
  CBRname :: string
  ABRname :: string

record flacFormat =
  flacDefaultExtension :: string
  flacExtensions :: "string list"

text \<open>\<open>input.Wav\<close> and \<open>input.Mp3\<close>.\<close>

definition input_Wav :: wavFormat where
  "input_Wav = \<lparr> wavDefaultExtension = ''.wav'',
           wavExtensions = [''.wav'', ''.wave''],
           BitDepths = {BitDepth8, BitDepth16, BitDepth24, BitDepth32} \<rparr>"

definition input_Mp3 :: mp3Format where
  "input_Mp3 = \<lparr> mp3DefaultExtension = ''.mp3'',
           mp3Extensions = [''.mp3''],
           MaxBitRate = 320,
           MinBitRate = 8,
           ChannelModes = {JointStereo, Stereo, Mono},
           VBRname = ''VBR'',
           CBRname = ''CBR'',
           ABRname = ''ABR'' \<rparr>"

text \<open>\<open>file.Wav\<close>, \<open>file.Mp3\<close> and \<open>file.Flac\<close>.\<close>

definition file_Wav :: wavFormat where
  "file_Wav = \<lparr> wavDefaultExtension = ''.wav'',
           wavExtensions = [''.wav'', ''.wave''],
           BitDepths = {BitDepth8, BitDepth16, BitDepth24, BitDepth32} \<rparr>"

definition file_Mp3 :: mp3Format where
  "file_Mp3 = \<lparr> mp3DefaultExtension = ''.mp3'',
           mp3Extensions = [''.mp3''],
           MaxBitRate = 320,
           MinBitRate = 8,
           ChannelModes = {JointStereo, Stereo, Mono},
           VBRname = ''VBR'',
           CBRname = ''CBR'',
           ABRname = ''ABR'' \<rparr>"

definition file_Flac :: flacFormat where
  "file_Flac = \<lparr> flacDefaultExtension = ''.flac'', flacExtensions = [''.flac''] \<rparr>"

text \<open>\<open>wavFormat.Build\<close> (package input) and \<open>wavFormat.BuildSink\<close> (package file).\<close>

definition wavBuild :: "wavFormat \<Rightarrow> int \<Rightarrow> error + BuildFunc" where
  "wavBuild f bitDepth =
     (let bd = bitDepth in
      if bd \<notin> BitDepths f then Inl (BitDepthNotSupported bitDepth)
      else Inr (WavBuild bd))"

definition wavBuildSink :: "wavFormat \<Rightarrow> int \<Rightarrow> error + BuildFunc" where
  "wavBuildSink f bitDepth =
     (let bd = bitDepth in
      if bd \<notin> BitDepths f then Inl (BitDepthNotSupported bitDepth)
      else Inr (WavBuild bd))"

text \<open>\<open>mp3Format.bitRate\<close>, the same in both packages.\<close>

definition bitRate :: "mp3Format \<Rightarrow> int \<Rightarrow> error option" where
  "bitRate f v =
     (if v > MaxBitRate f \<or> v < MinBitRate f
      then Some (BitRateNotSupported v (MinBitRate f) (MaxBitRate f))
      else None)"

text \<open>
  What follows the \<open>switch\<close> in both mp3 builders: the quality check behind
  \<open>useQuality\<close>, and the closure.
\<close>

definition finishMp3 :: "BitRateMode \<Rightarrow> int \<Rightarrow> bool \<Rightarrow> int \<Rightarrow> error + BuildFunc" where
  "finishMp3 brm cm useQuality quality =
     (if useQuality then
        (if quality < 0 \<or> quality > 9 then Inl (MP3QualityNotSupported quality)
         else Inr (Mp3Build brm cm useQuality quality))
      else Inr (Mp3Build brm cm useQuality quality))"

text \<open>\<open>mp3Format.Build\<close> of package input: the mode string is compared as given.\<close>

definition mp3Build ::
  "mp3Format \<Rightarrow> string \<Rightarrow> int \<Rightarrow> int \<Rightarrow> bool \<Rightarrow> int \<Rightarrow> error + BuildFunc" where
  "mp3Build f bitRateMode br channelMode useQuality quality =
     (let cm = channelMode in
      if cm \<notin> ChannelModes f then Inl (ChannelModeNotSupported cm)
      else if bitRateMode = VBRname f then
        (if br < 0 \<or> br > 9 then Inl (VBRQualityNotSupported br)
         else finishMp3 (VBR br) cm useQuality quality)
      else if bitRateMode = CBRname f then
        (case bitRate f br of
           Some err \<Rightarrow> Inl err
         | None \<Rightarrow> finishMp3 (CBR br) cm useQuality quality)
      else if bitRateMode = ABRname f then
        (case bitRate f br of
           Some err \<Rightarrow> Inl err
         | None \<Rightarrow> finishMp3 (ABR br) cm useQuality quality)
      else Inl (VBRModeNotSupported bitRateMode))"

text \<open>\<open>mp3Format.BuildSink\<close> of package file: the mode string is upper-cased first.\<close>

definition mp3BuildSink ::
  "mp3Format \<Rightarrow> string \<Rightarrow> int \<Rightarrow> int \<Rightarrow> bool \<Rightarrow> int \<Rightarrow> error + BuildFunc" where
  "mp3BuildSink f bitRateMode br channelMode useQuality quality =
     (let cm = channelMode; tag = ToUpper bitRateMode in
      if cm \<notin> ChannelModes f then Inl (ChannelModeNotSupported cm)
      else if tag = VBRname f then
        (if br < 0 \<or> br > 9 then Inl (VBRQualityNotSupported br)
         else finishMp3 (VBR br) cm useQuality quality)
      else if tag = CBRname f then
        (case bitRate f br of
           Some err \<Rightarrow> Inl err
         | None \<Rightarrow> finishMp3 (CBR br) cm useQuality quality)
      else if tag = ABRname f then
        (case bitRate f br of
           Some err \<Rightarrow> Inl err
         | None \<Rightarrow> finishMp3 (ABR br) cm useQuality quality)
      else Inl (BitRateModeNotSupported bitRateMode))"

section \<open>Input format resolution\<close>

text \<open>\<open>input.HasExtension\<close>: the file name is lower-cased, then its suffix compared.\<close>

definition HasExtension :: "string \<Rightarrow> string list \<Rightarrow> bool" where
  "HasExtension fileName exts =
     (let name = ToLower fileName in list_ex (\<lambda>ext. HasSuffix name ext) exts)"

text \<open>\<open>file.hasExtension\<close>: membership of the extension in the format's set.\<close>

definition hasExtension :: "string \<Rightarrow> string list \<Rightarrow> bool" where
  "hasExtension ext exts = (ext \<in> set exts)"

text \<open>The closures \<open>file.Pump\<close> returns, by the pump they build.\<close>

datatype BuildPumpFunc = WavPump | Mp3Pump | FlacPump

definition Pump :: "string \<Rightarrow> error + BuildPumpFunc" where
  "Pump fileName =
     (let ext = ToLower (Ext fileName) in
      if hasExtension ext (wavExtensions file_Wav) then Inr WavPump
      else if hasExtension ext (mp3Extensions file_Mp3) then Inr Mp3Pump
      else if hasExtension ext (flacExtensions file_Flac) then Inr FlacPump
      else Inl (UnsupportedExtension fileName))"

section \<open>The encode form (package form)\<close>

text \<open>
  The default extensions of package fileformat, \<open>fileformat.WAV.DefaultExtension()\<close>
  and its siblings, with the values the tables of package file give them.
\<close>

definition WAV_DefaultExtension :: string where "WAV_DefaultExtension = ''.wav''"
definition MP3_DefaultExtension :: string where "MP3_DefaultExtension = ''.mp3''"
definition FLAC_DefaultExtension :: string where "FLAC_DefaultExtension = ''.flac''"

record Encode =
  WavMaxSize :: int
  Mp3MaxSize :: int
  FlacMaxSize :: int

definition FileKey :: string where
  "FileKey = ''input-file''"

text \<open>\<open>Encode.InputMaxSize\<close>.\<close>

definition InputMaxSize :: "Encode \<Rightarrow> string \<Rightarrow> error + int" where
  "InputMaxSize c url =
     (let ext = ToLower (Base url) in
      if ext = MP3_DefaultExtension then Inr (Mp3MaxSize c)
      else if ext = WAV_DefaultExtension then Inr (WavMaxSize c)
      else if ext = FLAC_DefaultExtension then Inr (FlacMaxSize c)
      else Inl (FormatNotSupported ext))"

text \<open>\<open>parseIntValue\<close> and \<open>parseBoolValue\<close>.\<close>

definition parseIntValue :: "Values \<Rightarrow> string \<Rightarrow> string \<Rightarrow> error + int" where
  "parseIntValue data key name =
     (let str = Get data key in
      if str = [] then Inl (NotProvided name)
      else case Atoi str of
             None \<Rightarrow> Inl (FailedParsing name str)
           | Some val \<Rightarrow> Inr val)"

definition parseBoolValue :: "Values \<Rightarrow> string \<Rightarrow> string \<Rightarrow> error + bool" where
  "parseBoolValue data key name =
     (let str = Get data key in
      if str = [] then Inr False
      else case ParseBool str of
             None \<Rightarrow> Inl (FailedParsing name str)
           | Some val \<Rightarrow> Inr val)"

text \<open>
  \<open>parseWAVSink\<close> and \<open>parseMP3Sink\<close> end in a call of \<open>input.WAV.Sink\<close> and
  \<open>input.MP3.Sink\<close>, and compare the mode with \<open>input.MP3.VBR\<close>, \<open>input.MP3.CBR\<close>
  and \<open>input.MP3.ABR\<close>.  These belong to a revision of package input that is not among
  the sources, so the parsers take them as parameters.
\<close>

record inputPkg =
  WAV_Sink :: "int \<Rightarrow> error + BuildFunc"
  MP3_Sink :: "string \<Rightarrow> int \<Rightarrow> int \<Rightarrow> bool \<Rightarrow> int \<Rightarrow> error + BuildFunc"
  MP3_VBR :: string
  MP3_CBR :: string
  MP3_ABR :: string

definition parseWAVSink :: "inputPkg \<Rightarrow> Values \<Rightarrow> error + BuildFunc" where
  "parseWAVSink inp data =
     (case parseIntValue data ''wav-bit-depth'' ''bit depth'' of
        Inl err \<Rightarrow> Inl err
      | Inr bitDepth \<Rightarrow> WAV_Sink inp bitDepth)"

text \<open>
  The tail of \<open>parseMP3Sink\<close>, from the comment \<open>try to get mp3 quality\<close> on.
\<close>

definition parseMP3Quality ::
  "inputPkg \<Rightarrow> Values \<Rightarrow> string \<Rightarrow> int \<Rightarrow> int \<Rightarrow> error + BuildFunc" where
  "parseMP3Quality inp data bitRateMode br channelMode =
     (case parseBoolValue data ''mp3-use-quality'' ''mp3 quality'' of
        Inl err \<Rightarrow> Inl err
      | Inr useQuality \<Rightarrow>
          if useQuality then
            (case parseIntValue data ''mp3-quality'' ''mp3 quality'' of
               Inl err \<Rightarrow> Inl err
             | Inr quality \<Rightarrow> MP3_Sink inp bitRateMode br channelMode useQuality quality)
          else MP3_Sink inp bitRateMode br channelMode useQuality 0)"

definition parseMP3Sink :: "inputPkg \<Rightarrow> Values \<Rightarrow> error + BuildFunc" where
  "parseMP3Sink inp data =
     (case parseIntValue data ''mp3-channel-mode'' ''channel mode'' of
        Inl err \<Rightarrow> Inl err
      | Inr channelMode \<Rightarrow>
          let bitRateMode = Get data ''mp3-bit-rate-mode'' in
          if bitRateMode = [] then Inl ProvideBitRateMode
          else if bitRateMode = MP3_VBR inp then
            (case parseIntValue data ''mp3-vbr-quality'' ''vbr quality'' of
               Inl err \<Rightarrow> Inl err
             | Inr br \<Rightarrow> parseMP3Quality inp data bitRateMode br channelMode)
          else if bitRateMode = MP3_CBR inp then
            (case parseIntValue data ''mp3-bit-rate'' ''bit rate'' of
               Inl err \<Rightarrow> Inl err
             | Inr br \<Rightarrow> parseMP3Quality inp data bitRateMode br channelMode)
          else if bitRateMode = MP3_ABR inp then
            (case parseIntValue data ''mp3-bit-rate'' ''bit rate'' of
               Inl err \<Rightarrow> Inl err
             | Inr br \<Rightarrow> parseMP3Quality inp data bitRateMode br channelMode)
          else parseMP3Quality inp data bitRateMode 0 channelMode)"

text \<open>
  \<open>Encode.ParseSink\<close>: the result is the pair of \<open>(fn, err)\<close>, as a sum, and \<open>ext\<close>.
\<close>

definition ParseSink :: "inputPkg \<Rightarrow> Values \<Rightarrow> (error + BuildFunc) \<times> string" where
  "ParseSink inp data =
     (let ext = ToLower (Get data ''format'');
          r = (if ext = WAV_DefaultExtension then parseWAVSink inp data
               else if ext = MP3_DefaultExtension then parseMP3Sink inp data
               else Inl (UnsupportedFormat ext))
      in case r of
           Inl err \<Rightarrow> (Inl err, [])
         | Inr fn \<Rightarrow> (Inr fn, ext))"

text \<open>
  The two builders of package input and of package file, in the place of the missing
  \<open>input.WAV\<close> and \<open>input.MP3\<close>.
\<close>

definition inputBuilders :: inputPkg where
  "inputBuilders = \<lparr> WAV_Sink = wavBuild input_Wav, MP3_Sink = mp3Build input_Mp3,
       MP3_VBR = VBRname input_Mp3, MP3_CBR = CBRname input_Mp3, MP3_ABR = ABRname input_Mp3 \<rparr>"

definition fileBuilders :: inputPkg where
  "fileBuilders = \<lparr> WAV_Sink = wavBuildSink file_Wav, MP3_Sink = mp3BuildSink file_Mp3,
       MP3_VBR = VBRname file_Mp3, MP3_CBR = CBRname file_Mp3, MP3_ABR = ABRname file_Mp3 \<rparr>"

section \<open>The HTTP handler (package controller)\<close>

text \<open>
  The handler talks to the request, the response writer, the file system and the pipe.
  Its model is a function from the request and from the outcomes of those calls to the
  trace of the calls it makes, in the order it makes them.
\<close>

datatype Method = MethodGet | MethodPost | MethodOther

text \<open>
  The request: \<open>BodyLength\<close> is the number of bytes of the body that
  \<open>ParseMultipartForm\<close> reads, \<open>FormValues\<close> is \<open>r.Form\<close> once the body is parsed.
\<close>

record Request =
  Method :: Method
  URLPath :: string
  BodyLength :: int
  FormValues :: Values

text \<open>
  The outcome of every call that leaves the handler: \<open>None\<close> or \<open>Inr\<close> when the call
  returns a nil error.  \<open>formFile\<close> gives \<open>handler.Filename\<close> for the key asked.
\<close>

record Env =
  writeData :: "error option"
  multipart :: "error option"
  formFile :: "string \<Rightarrow> error + string"
  tempFile :: "error option"
  pipeNew :: "error option"
  pipeRun :: "error option"
  seek :: "error option"
  stat :: "error + int"
  copy :: "error option"
  closeTemp :: "error option"
  removeTemp :: "error option"

datatype event =
    Write_formData
  | Error error int
  | WriteHeader int
  | MaxBytesReader int
  | ParseMultipartForm int
  | FormFile string
  | Close_f
  | TempFile string
  | PipeNew int
  | PipeRun
  | Seek
  | Stat
  | SetContentDisposition string int string
  | SetContentType string
  | SetContentLength int
  | Copy
  | Close_tempFile
  | Remove_tempFile
  | Log string

text \<open>The \<open>io.WriteSeeker\<close> handed to the sink is the temporary file.\<close>

datatype File = TempFileIn string

text \<open>The interface \<open>input.ConvertForm\<close>.\<close>

record ConvertForm =
  cfData :: string
  cfInputMaxSize :: "string \<Rightarrow> error + int"
  cfFileKey :: string
  cfParseSink :: "Values \<Rightarrow> (error + BuildFunc) \<times> string"

text \<open>\<open>form.Encode\<close> as a \<open>ConvertForm\<close>; \<open>page\<close> is the rendered template.\<close>

definition EncodeForm :: "inputPkg \<Rightarrow> string \<Rightarrow> Encode \<Rightarrow> ConvertForm" where
  "EncodeForm inp page c =
     \<lparr> cfData = page, cfInputMaxSize = InputMaxSize c, cfFileKey = FileKey,
       cfParseSink = ParseSink inp \<rparr>"

text \<open>
  \<open>r.Body = http.MaxBytesReader(w, r.Body, maxSize)\<close> followed by
  \<open>r.ParseMultipartForm(maxSize)\<close>.  The reader fails every read past \<open>maxSize\<close>
  bytes (a negative limit counts as 0) with "http: request body too large", so a body
  longer than the limit cannot be parsed.
\<close>

definition parseLimited :: "Request \<Rightarrow> Env \<Rightarrow> int \<Rightarrow> error option" where
  "parseLimited r env maxSize =
     (if BodyLength r > max 0 maxSize then Some RequestBodyTooLarge else multipart env)"

text \<open>\<open>cleanUp\<close>: close and remove the temporary file, logging what fails.\<close>

definition cleanUp :: "Env \<Rightarrow> event list" where
  "cleanUp env =
     Close_tempFile #
     (case closeTemp env of Some err \<Rightarrow> [Log ''Failed to close temp file''] | None \<Rightarrow> []) @
     Remove_tempFile #
     (case removeTemp env of Some err \<Rightarrow> [Log ''Failed to delete temp file''] | None \<Rightarrow> [])"

text \<open>\<open>convert\<close>: build the pipe and run it.\<close>

definition convert ::
  "Env \<Rightarrow> int \<Rightarrow> BuildPumpFunc \<Rightarrow> File Sink \<Rightarrow> event list \<times> error option" where
  "convert env bufferSize pump sink =
     (case pipeNew env of
        Some err \<Rightarrow> ([PipeNew bufferSize], Some (FailedToBuildPipe err))
      | None \<Rightarrow>
          (case pipeRun env of
             Some err \<Rightarrow> ([PipeNew bufferSize, PipeRun], Some (FailedToExecutePipe err))
           | None \<Rightarrow> ([PipeNew bufferSize, PipeRun], None)))"

text \<open>
  The handler from \<open>convert\<close> to its last \<open>return\<close>, which is what runs between
  \<open>defer cleanUp(tempFile)\<close> and the deferred call.
\<close>

definition sendResult ::
  "Env \<Rightarrow> int \<Rightarrow> string \<Rightarrow> BuildPumpFunc \<Rightarrow> BuildFunc \<Rightarrow> string \<Rightarrow> event list" where
  "sendResult env bufferSize tempDir pump buildFn ext =
     (let run = convert env bufferSize pump (build buildFn (TempFileIn tempDir)) in
      case snd run of
        Some err \<Rightarrow> fst run @ [Error err 400]
      | None \<Rightarrow>
          fst run @ Seek #
          (case seek env of
             Some err \<Rightarrow> [Error (FailedToResetTempFile err) 500]
           | None \<Rightarrow>
               Stat #
               (case stat env of
                  Inl err \<Rightarrow> [Error (FailedToGetFileStats err) 500]
                | Inr fileSize \<Rightarrow>
                    [SetContentDisposition ''result'' 1 ext, SetContentType ext,
                     SetContentLength fileSize, Copy] @
                    (case copy env of
                       Some err \<Rightarrow> [Error (FailedToTransferFile err) 500]
                     | None \<Rightarrow> []))))"

text \<open>
  The handler from \<open>input.FilePump\<close> on, which is what runs between
  \<open>defer f.Close()\<close> and that deferred call.  \<open>input.FilePump\<close> is not among the
  sources and is the parameter \<open>filePump\<close>.  The deferred \<open>cleanUp\<close> is registered
  only once \<open>ioutil.TempFile\<close> has returned without error, and runs when the handler
  returns.
\<close>

definition convertFile ::
  "ConvertForm \<Rightarrow> (string \<Rightarrow> error + BuildPumpFunc) \<Rightarrow> int \<Rightarrow> string \<Rightarrow>
     Request \<Rightarrow> Env \<Rightarrow> string \<Rightarrow> event list" where
  "convertFile form filePump bufferSize tempDir r env fileName =
     (case filePump fileName of
        Inl err \<Rightarrow> [Error err 400]
      | Inr pump \<Rightarrow>
          (let parsed = cfParseSink form (FormValues r); ext = snd parsed in
           case fst parsed of
             Inl err \<Rightarrow> [Error err 400]
           | Inr buildFn \<Rightarrow>
               TempFile tempDir #
               (case tempFile env of
                  Some err \<Rightarrow> [Error err 500]
                | None \<Rightarrow>
                    sendResult env bufferSize tempDir pump buildFn ext @ cleanUp env)))"

text \<open>\<open>controller.Convert\<close>: the handler it returns, applied to one request.\<close>

definition Convert ::
  "ConvertForm \<Rightarrow> (string \<Rightarrow> error + BuildPumpFunc) \<Rightarrow> int \<Rightarrow> string \<Rightarrow>
     Request \<Rightarrow> Env \<Rightarrow> event list" where
  "Convert form filePump bufferSize tempDir r env =
     (case Method r of
        MethodGet \<Rightarrow>
          Write_formData #
          (case writeData env of Some err \<Rightarrow> [Error err 500] | None \<Rightarrow> [])
      | MethodPost \<Rightarrow>
          (case cfInputMaxSize form (URLPath r) of
             Inr maxSize \<Rightarrow>
               MaxBytesReader maxSize # ParseMultipartForm maxSize #
               (case parseLimited r env maxSize of
                  Some err \<Rightarrow> [Error err 400]
                | None \<Rightarrow>
                    FormFile (cfFileKey form) #
                    (case formFile env (cfFileKey form) of
                       Inl err \<Rightarrow> [Error err 400]
                     | Inr fileName \<Rightarrow>
                         convertFile form filePump bufferSize tempDir r env fileName @
                         [Close_f]))
           | Inl err \<Rightarrow> [Error err 400])
      | MethodOther \<Rightarrow> [WriteHeader 405])"

text \<open>The calls on the response writer: what the caller is sent.\<close>

fun onResponse :: "event \<Rightarrow> bool" where
  "onResponse Write_formData = True"
| "onResponse (Error err code) = True"
| "onResponse (WriteHeader code) = True"
| "onResponse (SetContentDisposition prefix idx ext) = True"
| "onResponse (SetContentType ext) = True"
| "onResponse (SetContentLength n) = True"
| "onResponse Copy = True"
| "onResponse ev = False"

definition response :: "event list \<Rightarrow> event list" where
  "response tr = filter onResponse tr"

section \<open>A request and an environment for the examples\<close>

text \<open>
  A POST of \<open>track.wav\<close> to \<open>/.wav\<close> with a body of 1000 bytes, under limits of 2000
  bytes, in an environment where every call succeeds.
\<close>

definition exampleEnv :: Env where
  "exampleEnv =
     \<lparr> writeData = None, multipart = None, formFile = (\<lambda>key. Inr ''track.wav''),
       tempFile = None, pipeNew = None, pipeRun = None, seek = None, stat = Inr 4096,
       copy = None, closeTemp = None, removeTemp = None \<rparr>"

definition exampleRequest :: "Values \<Rightarrow> Request" where
  "exampleRequest values =
     \<lparr> Method = MethodPost, URLPath = ''/.wav'', BodyLength = 1000, FormValues = values \<rparr>"

definition exampleLimits :: Encode where
  "exampleLimits = \<lparr> WavMaxSize = 2000, Mp3MaxSize = 2000, FlacMaxSize = 2000 \<rparr>"

section \<open>Facts about the library functions\<close>

lemma of_char_toLowerChar:
  "(of_char (toLowerChar c) :: nat) =
     (if 65 \<le> (of_char c :: nat) \<and> (of_char c :: nat) \<le> 90 then of_char c + 32 else of_char c)"
  by (simp add: toLowerChar_def Let_def)

lemma toLowerChar_idem: "toLowerChar (toLowerChar c) = toLowerChar c"
  by (simp add: toLowerChar_def Let_def)

lemma ToLower_idem: "ToLower (ToLower s) = ToLower s"
  by (simp add: ToLower_def toLowerChar_idem)

lemma toLowerChar_dot: "(toLowerChar c = CHR ''.'') = (c = CHR ''.'')"
proof
  assume h: "toLowerChar c = CHR ''.''"
  then have "(of_char (toLowerChar c) :: nat) = 46" by simp
  then have "\<not> (65 \<le> (of_char c :: nat) \<and> (of_char c :: nat) \<le> 90)"
    by (auto simp: of_char_toLowerChar split: if_splits)
  with h show "c = CHR ''.''" by (simp add: toLowerChar_def Let_def)
next
  assume "c = CHR ''.''"
  then show "toLowerChar c = CHR ''.''" by (simp add: toLowerChar_def)
qed

lemma toLowerChar_slash: "(toLowerChar c = CHR ''/'') = (c = CHR ''/'')"
proof
  assume h: "toLowerChar c = CHR ''/''"
  then have "(of_char (toLowerChar c) :: nat) = 47" by simp
  then have "\<not> (65 \<le> (of_char c :: nat) \<and> (of_char c :: nat) \<le> 90)"
    by (auto simp: of_char_toLowerChar split: if_splits)
  with h show "c = CHR ''/''" by (simp add: toLowerChar_def Let_def)
next
  assume "c = CHR ''/''"
  then show "toLowerChar c = CHR ''/''" by (simp add: toLowerChar_def)
qed

lemma extScan_toLower:
  "extScan (map toLowerChar xs) (map toLowerChar acc) = map toLowerChar (extScan xs acc)"
proof (induction xs arbitrary: acc)
  case Nil
  show ?case by simp
next
  case (Cons c xs)
  from Cons.IH [of "c # acc"] show ?case
    by (simp add: toLowerChar_dot toLowerChar_slash)
qed

lemma Ext_ToLower: "Ext (ToLower path) = ToLower (Ext path)"
  using extScan_toLower [of "rev path" "[]"] by (simp add: Ext_def ToLower_def rev_map)

lemma Pump_ext:
  "Pump fileName =
     (if ToLower (Ext fileName) = ''.wav'' \<or> ToLower (Ext fileName) = ''.wave'' then Inr WavPump
      else if ToLower (Ext fileName) = ''.mp3'' then Inr Mp3Pump
      else if ToLower (Ext fileName) = ''.flac'' then Inr FlacPump
      else Inl (UnsupportedExtension fileName))"
  by (simp add: Pump_def Let_def hasExtension_def file_Wav_def file_Mp3_def file_Flac_def)

lemma Pump_case_insensitive:
  assumes "ToLower a = ToLower b"
  shows "(Pump a = Inr p) = (Pump b = Inr p)"
proof -
  have "ToLower (Ext a) = ToLower (Ext b)"
    using assms by (simp add: Ext_ToLower [symmetric])
  then show ?thesis
    by (simp add: Pump_ext)
qed

lemma HasExtension_case_insensitive:
  "ToLower a = ToLower b \<Longrightarrow> HasExtension a exts = HasExtension b exts"
  by (simp add: HasExtension_def)

lemma Get_upd_other: "key \<noteq> k \<Longrightarrow> Get (data(k \<mapsto> v)) key = Get data key"
  by (simp add: Get_def)

lemma Get_upd_same: "Get (data(k \<mapsto> [v])) k = v"
  by (simp add: Get_def)

lemma parseIntValue_upd: "key \<noteq> k \<Longrightarrow> parseIntValue (data(k \<mapsto> v)) key name = parseIntValue data key name"
  by (simp add: parseIntValue_def Get_upd_other)

lemma parseBoolValue_upd: "key \<noteq> k \<Longrightarrow> parseBoolValue (data(k \<mapsto> v)) key name = parseBoolValue data key name"
  by (simp add: parseBoolValue_def Get_upd_other)

lemma parseWAVSink_format: "parseWAVSink inp (data(''format'' \<mapsto> v)) = parseWAVSink inp data"
  by (simp add: parseWAVSink_def parseIntValue_upd)

lemma parseMP3Quality_format:
  "parseMP3Quality inp (data(''format'' \<mapsto> v)) m br cm = parseMP3Quality inp data m br cm"
  by (simp add: parseMP3Quality_def parseIntValue_upd parseBoolValue_upd cong: sum.case_cong if_cong)

lemma parseMP3Sink_format: "parseMP3Sink inp (data(''format'' \<mapsto> v)) = parseMP3Sink inp data"
  by (simp add: parseMP3Sink_def Let_def parseIntValue_upd Get_upd_other parseMP3Quality_format
      cong: sum.case_cong if_cong)

lemma ParseSink_case_insensitive:
  "ParseSink inp (data(''format'' \<mapsto> [ToLower v])) = ParseSink inp (data(''format'' \<mapsto> [v]))"
  by (simp add: ParseSink_def Let_def Get_upd_same ToLower_idem parseWAVSink_format
      parseMP3Sink_format)

lemma ParseSink_unsupported:
  "ToLower (Get data ''format'') \<noteq> ''.wav'' \<Longrightarrow> ToLower (Get data ''format'') \<noteq> ''.mp3'' \<Longrightarrow>
   ParseSink inp data = (Inl (UnsupportedFormat (ToLower (Get data ''format''))), [])"
  by (simp add: ParseSink_def Let_def WAV_DefaultExtension_def MP3_DefaultExtension_def)


section \<open>Facts about the sink builders and the form\<close>

lemma wavBuild_accepts: "(\<exists>fn. wavBuild input_Wav b = Inr fn) = (b \<in> {8, 16, 24, 32})"
  by (auto simp: wavBuild_def input_Wav_def BitDepth8_def BitDepth16_def BitDepth24_def
      BitDepth32_def)

lemma wavBuildSink_accepts: "(\<exists>fn. wavBuildSink file_Wav b = Inr fn) = (b \<in> {8, 16, 24, 32})"
  by (auto simp: wavBuildSink_def file_Wav_def BitDepth8_def BitDepth16_def BitDepth24_def
      BitDepth32_def)

lemma finishMp3_accepts:
  "(\<exists>fn. finishMp3 brm cm uq q = Inr fn) = (uq \<longrightarrow> 0 \<le> q \<and> q \<le> 9)"
  by (auto simp: finishMp3_def)

lemma mp3Build_accepts:
  "(\<exists>fn. mp3Build input_Mp3 m br cm uq q = Inr fn) =
     (cm \<in> ChannelModes input_Mp3 \<and>
      (m = ''VBR'' \<and> 0 \<le> br \<and> br \<le> 9 \<or> (m = ''CBR'' \<or> m = ''ABR'') \<and> 8 \<le> br \<and> br \<le> 320) \<and>
      (uq \<longrightarrow> 0 \<le> q \<and> q \<le> 9))"
  by (auto simp: mp3Build_def Let_def input_Mp3_def bitRate_def finishMp3_accepts)

lemma mp3BuildSink_accepts:
  "(\<exists>fn. mp3BuildSink file_Mp3 m br cm uq q = Inr fn) =
     (cm \<in> ChannelModes file_Mp3 \<and>
      (ToUpper m = ''VBR'' \<and> 0 \<le> br \<and> br \<le> 9 \<or>
       (ToUpper m = ''CBR'' \<or> ToUpper m = ''ABR'') \<and> 8 \<le> br \<and> br \<le> 320) \<and>
      (uq \<longrightarrow> 0 \<le> q \<and> q \<le> 9))"
  by (auto simp: mp3BuildSink_def Let_def file_Mp3_def bitRate_def finishMp3_accepts)

lemma mp3Build_other_mode:
  "cm \<in> ChannelModes input_Mp3 \<Longrightarrow> m \<noteq> ''VBR'' \<Longrightarrow> m \<noteq> ''CBR'' \<Longrightarrow> m \<noteq> ''ABR'' \<Longrightarrow>
   mp3Build input_Mp3 m br cm uq q = Inl (VBRModeNotSupported m)"
  by (simp add: mp3Build_def input_Mp3_def)

lemma mp3BuildSink_other_mode:
  "cm \<in> ChannelModes file_Mp3 \<Longrightarrow> ToUpper m \<noteq> ''VBR'' \<Longrightarrow> ToUpper m \<noteq> ''CBR'' \<Longrightarrow>
   ToUpper m \<noteq> ''ABR'' \<Longrightarrow>
   mp3BuildSink file_Mp3 m br cm uq q = Inl (BitRateModeNotSupported m)"
  by (simp add: mp3BuildSink_def Let_def file_Mp3_def)

lemma parseMP3Sink_no_mode:
  "parseIntValue data ''mp3-channel-mode'' ''channel mode'' = Inr cm \<Longrightarrow>
   Get data ''mp3-bit-rate-mode'' = [] \<Longrightarrow>
   parseMP3Sink inp data = Inl ProvideBitRateMode"
  by (simp add: parseMP3Sink_def)

lemma parseMP3Sink_VBR:
  "parseIntValue data ''mp3-channel-mode'' ''channel mode'' = Inr cm \<Longrightarrow>
   MP3_VBR inp = ''VBR'' \<Longrightarrow> Get data ''mp3-bit-rate-mode'' = ''VBR'' \<Longrightarrow>
   parseMP3Sink inp data =
     (case parseIntValue data ''mp3-vbr-quality'' ''vbr quality'' of
        Inl err \<Rightarrow> Inl err
      | Inr br \<Rightarrow> parseMP3Quality inp data ''VBR'' br cm)"
  by (simp add: parseMP3Sink_def)

lemma parseMP3Sink_CBR_ABR:
  "parseIntValue data ''mp3-channel-mode'' ''channel mode'' = Inr cm \<Longrightarrow>
   MP3_VBR inp = ''VBR'' \<Longrightarrow> MP3_CBR inp = ''CBR'' \<Longrightarrow> MP3_ABR inp = ''ABR'' \<Longrightarrow>
   Get data ''mp3-bit-rate-mode'' = m \<Longrightarrow> m = ''CBR'' \<or> m = ''ABR'' \<Longrightarrow>
   parseMP3Sink inp data =
     (case parseIntValue data ''mp3-bit-rate'' ''bit rate'' of
        Inl err \<Rightarrow> Inl err
      | Inr br \<Rightarrow> parseMP3Quality inp data m br cm)"
  by (auto simp: parseMP3Sink_def)

lemma mp3BuildSink_as_Build:
  "mp3BuildSink f m br cm uq q =
     (case mp3Build f (ToUpper m) br cm uq q of
        Inl (VBRModeNotSupported x) \<Rightarrow> Inl (BitRateModeNotSupported m)
      | res \<Rightarrow> res)"
  by (auto simp: mp3BuildSink_def mp3Build_def Let_def bitRate_def finishMp3_def
      split: option.splits)

lemma tables_equal: "file_Mp3 = input_Mp3"
  by (simp add: file_Mp3_def input_Mp3_def)

lemma mp3Build_accepted_upper:
  "mp3Build input_Mp3 m br cm uq q = Inr fn \<Longrightarrow> ToUpper m = m"
proof -
  assume "mp3Build input_Mp3 m br cm uq q = Inr fn"
  then have "\<exists>fn. mp3Build input_Mp3 m br cm uq q = Inr fn" by blast
  then have "m = ''VBR'' \<or> m = ''CBR'' \<or> m = ''ABR''"
    unfolding mp3Build_accepts by blast
  then show ?thesis
    by (auto simp: ToUpper_def toUpperChar_def)
qed

lemma Get_fun_upd_other: "key \<noteq> k \<Longrightarrow> Get (data(k := v)) key = Get data key"
  by (simp add: Get_def)

lemma parseIntValue_fun_upd:
  "key \<noteq> k \<Longrightarrow> parseIntValue (data(k := v)) key name = parseIntValue data key name"
  by (simp add: parseIntValue_def Get_fun_upd_other)

lemma parseBoolValue_fun_upd:
  "key \<noteq> k \<Longrightarrow> parseBoolValue (data(k := v)) key name = parseBoolValue data key name"
  by (simp add: parseBoolValue_def Get_fun_upd_other)

lemma parseMP3Quality_gate_off:
  "parseBoolValue data ''mp3-use-quality'' ''mp3 quality'' = Inr False \<Longrightarrow>
   parseMP3Quality inp data m br cm = MP3_Sink inp m br cm False 0"
  by (simp add: parseMP3Quality_def)

lemma parseMP3Quality_gate_on:
  "parseBoolValue data ''mp3-use-quality'' ''mp3 quality'' = Inr True \<Longrightarrow>
   parseMP3Quality inp data m br cm =
     (case parseIntValue data ''mp3-quality'' ''mp3 quality'' of
        Inl err \<Rightarrow> Inl err
      | Inr quality \<Rightarrow> MP3_Sink inp m br cm True quality)"
  by (simp add: parseMP3Quality_def)

lemma parseMP3Quality_irrelevant:
  "parseBoolValue data ''mp3-use-quality'' ''mp3 quality'' = Inr False \<Longrightarrow>
   parseMP3Quality inp (data(''mp3-quality'' := v)) m br cm = parseMP3Quality inp data m br cm"
  by (simp add: parseMP3Quality_def parseBoolValue_fun_upd)

lemma parseMP3Sink_quality_irrelevant:
  "parseBoolValue data ''mp3-use-quality'' ''mp3 quality'' = Inr False \<Longrightarrow>
   parseMP3Sink inp (data(''mp3-quality'' := v)) = parseMP3Sink inp data"
  by (simp add: parseMP3Sink_def Let_def parseIntValue_fun_upd Get_fun_upd_other
      parseMP3Quality_irrelevant cong: sum.case_cong if_cong)

lemma parseMP3Quality_required:
  "parseBoolValue data ''mp3-use-quality'' ''mp3 quality'' = Inr True \<Longrightarrow>
   Get data ''mp3-quality'' = [] \<Longrightarrow>
   parseMP3Quality inp data m br cm = Inl (NotProvided ''mp3 quality'')"
  by (simp add: parseMP3Quality_def parseIntValue_def)

lemma parseMP3Sink_quality_required:
  "parseBoolValue data ''mp3-use-quality'' ''mp3 quality'' = Inr True \<Longrightarrow>
   Get data ''mp3-quality'' = [] \<Longrightarrow>
   \<exists>err. parseMP3Sink inp data = Inl err"
  by (simp add: parseMP3Sink_def Let_def parseMP3Quality_required split: sum.splits)

lemma parseMP3Sink_result:
  "parseMP3Sink inp data = Inr fn \<Longrightarrow>
   \<exists>m br cm. parseMP3Quality inp data m br cm = Inr fn"
  by (auto simp: parseMP3Sink_def Let_def split: sum.splits if_splits)

lemma finishMp3_gate_off:
  "finishMp3 brm cm False q = Inr fn \<Longrightarrow> Quality (build fn ws) = None"
  by (auto simp: finishMp3_def)

lemma finishMp3_gate_on:
  "finishMp3 brm cm True q = Inr fn \<Longrightarrow> 0 \<le> q \<and> q \<le> 9 \<and> Quality (build fn ws) = Some q"
  by (auto simp: finishMp3_def SetQuality_def split: if_splits)

lemma mp3Build_finish:
  "mp3Build f m br cm uq q = Inr fn \<Longrightarrow> \<exists>brm. finishMp3 brm cm uq q = Inr fn"
  by (auto simp: mp3Build_def Let_def split: if_splits option.splits)

lemma mp3BuildSink_finish:
  "mp3BuildSink f m br cm uq q = Inr fn \<Longrightarrow> \<exists>brm. finishMp3 brm cm uq q = Inr fn"
  by (auto simp: mp3BuildSink_def Let_def split: if_splits option.splits)

lemma mp3Build_gate_off:
  "mp3Build f m br cm False q = Inr fn \<Longrightarrow> Quality (build fn ws) = None"
  by (blast dest: mp3Build_finish finishMp3_gate_off)

lemma mp3BuildSink_gate_off:
  "mp3BuildSink f m br cm False q = Inr fn \<Longrightarrow> Quality (build fn ws) = None"
  by (blast dest: mp3BuildSink_finish finishMp3_gate_off)

lemma mp3Build_gate_on:
  "mp3Build f m br cm True q = Inr fn \<Longrightarrow> 0 \<le> q \<and> q \<le> 9 \<and> Quality (build fn ws) = Some q"
  by (blast dest: mp3Build_finish finishMp3_gate_on)

lemma mp3BuildSink_gate_on:
  "mp3BuildSink f m br cm True q = Inr fn \<Longrightarrow>
   0 \<le> q \<and> q \<le> 9 \<and> Quality (build fn ws) = Some q"
  by (blast dest: mp3BuildSink_finish finishMp3_gate_on)

lemma parseMP3Sink_file_gate_on:
  assumes "parseBoolValue data ''mp3-use-quality'' ''mp3 quality'' = Inr True"
    and "parseMP3Sink fileBuilders data = Inr fn"
  shows "\<exists>q. parseIntValue data ''mp3-quality'' ''mp3 quality'' = Inr q \<and> 0 \<le> q \<and> q \<le> 9 \<and>
             Quality (build fn ws) = Some q"
proof -
  from assms(2) obtain m br cm where "parseMP3Quality fileBuilders data m br cm = Inr fn"
    by (blast dest: parseMP3Sink_result)
  with assms(1) obtain q where q: "parseIntValue data ''mp3-quality'' ''mp3 quality'' = Inr q"
    and "mp3BuildSink file_Mp3 m br cm True q = Inr fn"
    by (auto simp: parseMP3Quality_gate_on fileBuilders_def split: sum.splits)
  from this(2) have "0 \<le> q \<and> q \<le> 9 \<and> Quality (build fn ws) = Some q"
    by (rule mp3BuildSink_gate_on)
  with q show ?thesis by blast
qed

lemma parseMP3Sink_input_gate_on:
  assumes "parseBoolValue data ''mp3-use-quality'' ''mp3 quality'' = Inr True"
    and "parseMP3Sink inputBuilders data = Inr fn"
  shows "\<exists>q. parseIntValue data ''mp3-quality'' ''mp3 quality'' = Inr q \<and> 0 \<le> q \<and> q \<le> 9 \<and>
             Quality (build fn ws) = Some q"
proof -
  from assms(2) obtain m br cm where "parseMP3Quality inputBuilders data m br cm = Inr fn"
    by (blast dest: parseMP3Sink_result)
  with assms(1) obtain q where q: "parseIntValue data ''mp3-quality'' ''mp3 quality'' = Inr q"
    and "mp3Build input_Mp3 m br cm True q = Inr fn"
    by (auto simp: parseMP3Quality_gate_on inputBuilders_def split: sum.splits)
  from this(2) have "0 \<le> q \<and> q \<le> 9 \<and> Quality (build fn ws) = Some q"
    by (rule mp3Build_gate_on)
  with q show ?thesis by blast
qed

lemma parseMP3Sink_file_gate_off:
  assumes "parseBoolValue data ''mp3-use-quality'' ''mp3 quality'' = Inr False"
    and "parseMP3Sink fileBuilders data = Inr fn"
  shows "Quality (build fn ws) = None"
proof -
  from assms(2) obtain m br cm where "parseMP3Quality fileBuilders data m br cm = Inr fn"
    by (blast dest: parseMP3Sink_result)
  with assms(1) have "mp3BuildSink file_Mp3 m br cm False 0 = Inr fn"
    by (simp add: parseMP3Quality_gate_off fileBuilders_def)
  then show ?thesis by (rule mp3BuildSink_gate_off)
qed

lemma parseMP3Sink_input_gate_off:
  assumes "parseBoolValue data ''mp3-use-quality'' ''mp3 quality'' = Inr False"
    and "parseMP3Sink inputBuilders data = Inr fn"
  shows "Quality (build fn ws) = None"
proof -
  from assms(2) obtain m br cm where "parseMP3Quality inputBuilders data m br cm = Inr fn"
    by (blast dest: parseMP3Sink_result)
  with assms(1) have "mp3Build input_Mp3 m br cm False 0 = Inr fn"
    by (simp add: parseMP3Quality_gate_off inputBuilders_def)
  then show ?thesis by (rule mp3Build_gate_off)
qed

lemma parseBoolValue_absent:
  "Get data key = [] \<Longrightarrow> parseBoolValue data key name = Inr False"
  by (simp add: parseBoolValue_def)

lemma ParseSink_by_name:
  "ToLower (Get data ''format'') = ''.wav'' \<Longrightarrow> fst (ParseSink inp data) = parseWAVSink inp data"
  "ToLower (Get data ''format'') = ''.mp3'' \<Longrightarrow> fst (ParseSink inp data) = parseMP3Sink inp data"
  by (simp_all add: ParseSink_def Let_def WAV_DefaultExtension_def MP3_DefaultExtension_def
      split: sum.splits)

lemma wav_request_rejected:
  "ToLower (Get data ''format'') = ''.wav'' \<Longrightarrow> Get data ''wav-bit-depth'' = ''11'' \<Longrightarrow>
   fst (ParseSink inputBuilders data) = Inl (BitDepthNotSupported 11) \<and>
   fst (ParseSink fileBuilders data) = Inl (BitDepthNotSupported 11)"
proof -
  assume fmt: "ToLower (Get data ''format'') = ''.wav''" and depth: "Get data ''wav-bit-depth'' = ''11''"
  have "Atoi ''11'' = Some 11" by code_simp
  with depth have "parseIntValue data ''wav-bit-depth'' ''bit depth'' = Inr 11"
    by (simp add: parseIntValue_def)
  then have "parseWAVSink inputBuilders data = Inl (BitDepthNotSupported 11)"
    and "parseWAVSink fileBuilders data = Inl (BitDepthNotSupported 11)"
    by (simp_all add: parseWAVSink_def inputBuilders_def fileBuilders_def wavBuild_def
        wavBuildSink_def input_Wav_def file_Wav_def BitDepth8_def BitDepth16_def BitDepth24_def
        BitDepth32_def)
  with fmt show ?thesis
    by (simp add: ParseSink_by_name)
qed

section \<open>Facts about the handler\<close>

lemma sendResult_no_release:
  "Close_tempFile \<notin> set (sendResult env bufferSize tempDir pump buildFn ext)"
  "Remove_tempFile \<notin> set (sendResult env bufferSize tempDir pump buildFn ext)"
  "TempFile d \<notin> set (sendResult env bufferSize tempDir pump buildFn ext)"
  by (auto simp: sendResult_def convert_def Let_def split: option.splits sum.splits)

lemma count_cleanUp:
  "count_list (cleanUp env) Close_tempFile = 1"
  "count_list (cleanUp env) Remove_tempFile = 1"
  by (auto simp: cleanUp_def split: option.splits)

lemma convertFile_rejected:
  "fst (cfParseSink form (FormValues r)) = Inl err \<Longrightarrow>
   TempFile d \<notin> set (convertFile form filePump bufferSize tempDir r env fileName)"
  by (simp add: convertFile_def Let_def split: sum.splits)

lemma Convert_rejected:
  "fst (cfParseSink form (FormValues r)) = Inl err \<Longrightarrow>
   TempFile d \<notin> set (Convert form filePump bufferSize tempDir r env)"
  by (auto simp: Convert_def convertFile_rejected split: Method.splits sum.splits option.splits)

lemma count_convertFile:
  "count_list (convertFile form filePump bufferSize tempDir r env fileName) Close_tempFile =
     (if TempFile tempDir \<in> set (convertFile form filePump bufferSize tempDir r env fileName) \<and>
         tempFile env = None then 1 else 0)"
  "count_list (convertFile form filePump bufferSize tempDir r env fileName) Remove_tempFile =
     (if TempFile tempDir \<in> set (convertFile form filePump bufferSize tempDir r env fileName) \<and>
         tempFile env = None then 1 else 0)"
  by (auto simp: convertFile_def Let_def count_cleanUp sendResult_no_release count_list_0_iff
      split: option.splits sum.splits prod.splits)

lemma count_Convert:
  "count_list (Convert form filePump bufferSize tempDir r env) Close_tempFile =
     (if TempFile tempDir \<in> set (Convert form filePump bufferSize tempDir r env) \<and>
         tempFile env = None then 1 else 0)"
  "count_list (Convert form filePump bufferSize tempDir r env) Remove_tempFile =
     (if TempFile tempDir \<in> set (Convert form filePump bufferSize tempDir r env) \<and>
         tempFile env = None then 1 else 0)"
  by (auto simp: Convert_def count_convertFile split: Method.splits option.splits sum.splits)

lemma response_append: "response (xs @ ys) = response xs @ response ys"
  by (simp add: response_def)

lemma response_Cons:
  "response (x # xs) = (if onResponse x then x # response xs else response xs)"
  by (simp add: response_def)

lemma response_cleanUp: "response (cleanUp env) = []"
  by (simp add: response_def cleanUp_def split: option.splits)

lemma sendResult_release_outcome:
  "sendResult (env\<lparr>closeTemp := a, removeTemp := b\<rparr>) bufferSize tempDir pump buildFn ext =
   sendResult env bufferSize tempDir pump buildFn ext"
  by (simp add: sendResult_def convert_def Let_def
      cong: option.case_cong sum.case_cong)

lemma response_convertFile:
  "response (convertFile form filePump bufferSize tempDir r (env\<lparr>closeTemp := a, removeTemp := b\<rparr>) fileName) =
   response (convertFile form filePump bufferSize tempDir r env fileName)"
  by (simp add: convertFile_def Let_def response_append response_Cons response_cleanUp
      sendResult_release_outcome split: option.splits sum.splits)

lemma response_Convert:
  "response (Convert form filePump bufferSize tempDir r (env\<lparr>closeTemp := a, removeTemp := b\<rparr>)) =
   response (Convert form filePump bufferSize tempDir r env)"
  by (simp add: Convert_def parseLimited_def response_append response_Cons response_convertFile
      split: Method.splits option.splits sum.splits)

lemma cleanUp_logs:
  "closeTemp env = Some e \<Longrightarrow> Log ''Failed to close temp file'' \<in> set (cleanUp env)"
  "removeTemp env = Some e \<Longrightarrow> Log ''Failed to delete temp file'' \<in> set (cleanUp env)"
  by (auto simp: cleanUp_def split: option.splits)

lemma Error_cleanUp: "Error e code \<notin> set (cleanUp env)"
  by (simp add: cleanUp_def split: option.splits)

lemma Copy_cleanUp: "Copy \<notin> set (cleanUp env)"
  by (simp add: cleanUp_def split: option.splits)

lemma sendResult_delivered:
  "Copy \<in> set (sendResult env bufferSize tempDir pump buildFn ext) \<Longrightarrow> copy env = None \<Longrightarrow>
   Error e code \<notin> set (sendResult env bufferSize tempDir pump buildFn ext)"
  by (auto simp: sendResult_def convert_def Let_def split: option.splits sum.splits)

lemma convertFile_delivered:
  "Copy \<in> set (convertFile form filePump bufferSize tempDir r env fileName) \<Longrightarrow> copy env = None \<Longrightarrow>
   Error e code \<notin> set (convertFile form filePump bufferSize tempDir r env fileName)"
  by (auto simp: convertFile_def Let_def Error_cleanUp Copy_cleanUp dest: sendResult_delivered
      split: option.splits sum.splits prod.splits)

lemma delivered_no_error:
  "Copy \<in> set (Convert form filePump bufferSize tempDir r env) \<Longrightarrow> copy env = None \<Longrightarrow>
   Error e code \<notin> set (Convert form filePump bufferSize tempDir r env)"
  by (auto simp: Convert_def dest: convertFile_delivered
      split: Method.splits option.splits sum.splits)

lemma zero_limit:
  "0 < BodyLength r \<Longrightarrow> Method r = MethodPost \<Longrightarrow> cfInputMaxSize form (URLPath r) = Inr 0 \<Longrightarrow>
   Convert form filePump bufferSize tempDir r env =
     [MaxBytesReader 0, ParseMultipartForm 0, Error RequestBodyTooLarge 400]"
  by (simp add: Convert_def parseLimited_def)

lemma InputMaxSize_keys:
  "InputMaxSize c ''/.wav'' = Inr (WavMaxSize c)"
  "InputMaxSize c ''/.mp3'' = Inr (Mp3MaxSize c)"
  "InputMaxSize c ''/.flac'' = Inr (FlacMaxSize c)"
  by (simp_all add: InputMaxSize_def Base_def ToLower_def toLowerChar_def
      WAV_DefaultExtension_def MP3_DefaultExtension_def FLAC_DefaultExtension_def)

section \<open>The claims\<close>


subsection \<open>C1: a rejected request acquires no output resource\<close>

text \<open>
  C1.  The handler calls \<open>ioutil.TempFile\<close> only after \<open>ParseSink\<close> has returned without
  error: for every form, request and environment, if \<open>ParseSink\<close> rejects the values of
  the request then the trace of the handler contains no \<open>TempFile\<close> call, whatever the
  directory.
\<close>

theorem rejected_request_acquires_nothing:
  "fst (cfParseSink form (FormValues r)) = Inl err \<Longrightarrow>
   TempFile d \<notin> set (Convert form filePump bufferSize tempDir r env)"
  by (rule Convert_rejected)

text \<open>
  The scenario of the specification: MP3 output in constant bit rate mode without a bit
  rate is rejected with "bit rate not provided", and no temporary file is created.
\<close>

theorem rejected_request_acquires_nothing_witness:
  "fst (ParseSink inputBuilders
         [''format'' \<mapsto> [''.mp3''], ''mp3-channel-mode'' \<mapsto> [''2''],
          ''mp3-bit-rate-mode'' \<mapsto> [''CBR'']]) = Inl (NotProvided ''bit rate'') \<and>
   TempFile ''tmp'' \<notin> set (Convert (EncodeForm inputBuilders [] exampleLimits) Pump 1024 ''tmp''
      (exampleRequest [''format'' \<mapsto> [''.mp3''], ''mp3-channel-mode'' \<mapsto> [''2''],
          ''mp3-bit-rate-mode'' \<mapsto> [''CBR'']]) exampleEnv)"
proof -
  have rejected: "fst (ParseSink inputBuilders
         [''format'' \<mapsto> [''.mp3''], ''mp3-channel-mode'' \<mapsto> [''2''],
          ''mp3-bit-rate-mode'' \<mapsto> [''CBR'']]) = Inl (NotProvided ''bit rate'')"
    by code_simp
  then have "fst (cfParseSink (EncodeForm inputBuilders [] exampleLimits)
      (FormValues (exampleRequest [''format'' \<mapsto> [''.mp3''], ''mp3-channel-mode'' \<mapsto> [''2''],
          ''mp3-bit-rate-mode'' \<mapsto> [''CBR'']]))) = Inl (NotProvided ''bit rate'')"
    by (simp add: EncodeForm_def exampleRequest_def)
  from rejected_request_acquires_nothing [OF this] rejected show ?thesis
    by simp
qed

subsection \<open>C2: the temporary file is released exactly once\<close>

text \<open>
  C2.  Whenever the handler has acquired the temporary file (it called
  \<open>ioutil.TempFile\<close> and the call returned no error), its trace contains exactly one
  close and exactly one removal of that file, whatever happens afterwards: a failure to
  build or run the pipe, a failed seek or stat, a failed transfer, or success.
\<close>

theorem release_exactly_once:
  "TempFile tempDir \<in> set (Convert form filePump bufferSize tempDir r env) \<Longrightarrow>
   tempFile env = None \<Longrightarrow>
   count_list (Convert form filePump bufferSize tempDir r env) Close_tempFile = 1 \<and>
   count_list (Convert form filePump bufferSize tempDir r env) Remove_tempFile = 1"
  by (simp add: count_Convert)

text \<open>A run whose pipe fails while decoding: one close, one removal.\<close>

theorem release_exactly_once_witness:
  "Convert (EncodeForm inputBuilders [] exampleLimits) Pump 1024 ''tmp''
      (exampleRequest [''format'' \<mapsto> [''.wav''], ''wav-bit-depth'' \<mapsto> [''16'']])
      (exampleEnv\<lparr>pipeRun := Some (External ''decode'')\<rparr>) =
     [MaxBytesReader 2000, ParseMultipartForm 2000, FormFile ''input-file'', TempFile ''tmp'',
      PipeNew 1024, PipeRun, Error (FailedToExecutePipe (External ''decode'')) 400,
      Close_tempFile, Remove_tempFile, Close_f] \<and>
   count_list (Convert (EncodeForm inputBuilders [] exampleLimits) Pump 1024 ''tmp''
      (exampleRequest [''format'' \<mapsto> [''.wav''], ''wav-bit-depth'' \<mapsto> [''16'']])
      (exampleEnv\<lparr>pipeRun := Some (External ''decode'')\<rparr>)) Close_tempFile = 1 \<and>
   count_list (Convert (EncodeForm inputBuilders [] exampleLimits) Pump 1024 ''tmp''
      (exampleRequest [''format'' \<mapsto> [''.wav''], ''wav-bit-depth'' \<mapsto> [''16'']])
      (exampleEnv\<lparr>pipeRun := Some (External ''decode'')\<rparr>)) Remove_tempFile = 1"
proof -
  have run: "Convert (EncodeForm inputBuilders [] exampleLimits) Pump 1024 ''tmp''
      (exampleRequest [''format'' \<mapsto> [''.wav''], ''wav-bit-depth'' \<mapsto> [''16'']])
      (exampleEnv\<lparr>pipeRun := Some (External ''decode'')\<rparr>) =
     [MaxBytesReader 2000, ParseMultipartForm 2000, FormFile ''input-file'', TempFile ''tmp'',
      PipeNew 1024, PipeRun, Error (FailedToExecutePipe (External ''decode'')) 400,
      Close_tempFile, Remove_tempFile, Close_f]"
    by code_simp
  then have acquired: "TempFile ''tmp'' \<in> set (Convert (EncodeForm inputBuilders [] exampleLimits)
      Pump 1024 ''tmp''
      (exampleRequest [''format'' \<mapsto> [''.wav''], ''wav-bit-depth'' \<mapsto> [''16'']])
      (exampleEnv\<lparr>pipeRun := Some (External ''decode'')\<rparr>))"
    by simp
  have created: "tempFile (exampleEnv\<lparr>pipeRun := Some (External ''decode'')\<rparr>) = None"
    by (simp add: exampleEnv_def)
  from release_exactly_once [OF acquired created] run show ?thesis
    by blast
qed

subsection \<open>C3: the range of the rate follows the bit rate mode\<close>

text \<open>
  C3.  Both MP3 builders accept a parameter tuple exactly when the channel mode is
  supported, the rate lies in the range of the mode, 0 to 9 for VBR and 8 to 320 for
  CBR and ABR, and the quality, when used, lies in 0 to 9; \<open>input.Mp3.Build\<close> reads the
  mode as given and \<open>file.Mp3.BuildSink\<close> reads it in upper case.  A mode that is
  none of the three is rejected as unsupported whatever the rate is.  The form parser
  resolves the mode before it reads a rate: without a mode it answers "Please provide bit
  rate mode" whatever the rate fields hold, in VBR mode it reads the rate from
  \<open>mp3-vbr-quality\<close>, and in CBR and ABR mode from \<open>mp3-bit-rate\<close>.
\<close>

theorem mp3_rate_range_by_mode:
  "((\<exists>fn. mp3Build input_Mp3 m br cm uq q = Inr fn) =
      (cm \<in> ChannelModes input_Mp3 \<and>
       (m = ''VBR'' \<and> 0 \<le> br \<and> br \<le> 9 \<or>
        (m = ''CBR'' \<or> m = ''ABR'') \<and> 8 \<le> br \<and> br \<le> 320) \<and>
       (uq \<longrightarrow> 0 \<le> q \<and> q \<le> 9))) \<and>
   ((\<exists>fn. mp3BuildSink file_Mp3 m br cm uq q = Inr fn) =
      (cm \<in> ChannelModes file_Mp3 \<and>
       (ToUpper m = ''VBR'' \<and> 0 \<le> br \<and> br \<le> 9 \<or>
        (ToUpper m = ''CBR'' \<or> ToUpper m = ''ABR'') \<and> 8 \<le> br \<and> br \<le> 320) \<and>
       (uq \<longrightarrow> 0 \<le> q \<and> q \<le> 9))) \<and>
   (cm \<in> ChannelModes input_Mp3 \<longrightarrow> m \<noteq> ''VBR'' \<longrightarrow> m \<noteq> ''CBR'' \<longrightarrow> m \<noteq> ''ABR'' \<longrightarrow>
      mp3Build input_Mp3 m br cm uq q = Inl (VBRModeNotSupported m)) \<and>
   (cm \<in> ChannelModes file_Mp3 \<longrightarrow>
      ToUpper m \<noteq> ''VBR'' \<longrightarrow> ToUpper m \<noteq> ''CBR'' \<longrightarrow> ToUpper m \<noteq> ''ABR'' \<longrightarrow>
      mp3BuildSink file_Mp3 m br cm uq q = Inl (BitRateModeNotSupported m)) \<and>
   (parseIntValue data ''mp3-channel-mode'' ''channel mode'' = Inr cm \<longrightarrow>
      Get data ''mp3-bit-rate-mode'' = [] \<longrightarrow>
      parseMP3Sink inp data = Inl ProvideBitRateMode) \<and>
   (parseIntValue data ''mp3-channel-mode'' ''channel mode'' = Inr cm \<longrightarrow>
      MP3_VBR inp = ''VBR'' \<longrightarrow> Get data ''mp3-bit-rate-mode'' = ''VBR'' \<longrightarrow>
      parseMP3Sink inp data =
        (case parseIntValue data ''mp3-vbr-quality'' ''vbr quality'' of
           Inl err \<Rightarrow> Inl err
         | Inr rate \<Rightarrow> parseMP3Quality inp data ''VBR'' rate cm)) \<and>
   (parseIntValue data ''mp3-channel-mode'' ''channel mode'' = Inr cm \<longrightarrow>
      MP3_VBR inp = ''VBR'' \<longrightarrow> MP3_CBR inp = ''CBR'' \<longrightarrow> MP3_ABR inp = ''ABR'' \<longrightarrow>
      Get data ''mp3-bit-rate-mode'' = m \<longrightarrow> m = ''CBR'' \<or> m = ''ABR'' \<longrightarrow>
      parseMP3Sink inp data =
        (case parseIntValue data ''mp3-bit-rate'' ''bit rate'' of
           Inl err \<Rightarrow> Inl err
         | Inr rate \<Rightarrow> parseMP3Quality inp data m rate cm))"
proof (intro conjI impI)
  show "(\<exists>fn. mp3Build input_Mp3 m br cm uq q = Inr fn) =
      (cm \<in> ChannelModes input_Mp3 \<and>
       (m = ''VBR'' \<and> 0 \<le> br \<and> br \<le> 9 \<or>
        (m = ''CBR'' \<or> m = ''ABR'') \<and> 8 \<le> br \<and> br \<le> 320) \<and>
       (uq \<longrightarrow> 0 \<le> q \<and> q \<le> 9))"
    by (rule mp3Build_accepts)
  show "(\<exists>fn. mp3BuildSink file_Mp3 m br cm uq q = Inr fn) =
      (cm \<in> ChannelModes file_Mp3 \<and>
       (ToUpper m = ''VBR'' \<and> 0 \<le> br \<and> br \<le> 9 \<or>
        (ToUpper m = ''CBR'' \<or> ToUpper m = ''ABR'') \<and> 8 \<le> br \<and> br \<le> 320) \<and>
       (uq \<longrightarrow> 0 \<le> q \<and> q \<le> 9))"
    by (rule mp3BuildSink_accepts)
qed (simp_all add: mp3Build_other_mode mp3BuildSink_other_mode parseMP3Sink_no_mode
    parseMP3Sink_VBR parseMP3Sink_CBR_ABR)

text \<open>
  A constant bit rate of 128 is accepted and one of 4 is not, a VBR quality of 4 is
  accepted, the mode \<open>XYZ\<close> is unsupported, and a form without a mode is asked for one
  although it carries a bit rate.
\<close>

theorem mp3_rate_range_by_mode_witness:
  "(\<exists>fn. mp3Build input_Mp3 ''CBR'' 128 1 True 5 = Inr fn) \<and>
   \<not> (\<exists>fn. mp3Build input_Mp3 ''CBR'' 4 1 True 5 = Inr fn) \<and>
   (\<exists>fn. mp3BuildSink file_Mp3 ''VBR'' 4 1 True 5 = Inr fn) \<and>
   mp3Build input_Mp3 ''XYZ'' 128 1 True 5 = Inl (VBRModeNotSupported ''XYZ'') \<and>
   parseMP3Sink inputBuilders [''mp3-channel-mode'' \<mapsto> [''1''], ''mp3-bit-rate'' \<mapsto> [''128'']] =
     Inl ProvideBitRateMode"
proof -
  have cm: "1 \<in> ChannelModes input_Mp3" "1 \<in> ChannelModes file_Mp3"
    by (simp_all add: input_Mp3_def file_Mp3_def Stereo_def)
  have up: "ToUpper ''VBR'' = ''VBR''"
    by code_simp
  have chan: "parseIntValue [''mp3-channel-mode'' \<mapsto> [''1''], ''mp3-bit-rate'' \<mapsto> [''128'']]
      ''mp3-channel-mode'' ''channel mode'' = Inr 1"
    by code_simp
  have mode: "Get [''mp3-channel-mode'' \<mapsto> [''1''], ''mp3-bit-rate'' \<mapsto> [''128'']]
      ''mp3-bit-rate-mode'' = []"
    by code_simp
  have a: "\<exists>fn. mp3Build input_Mp3 ''CBR'' 128 1 True 5 = Inr fn"
    using cm by (simp add: mp3_rate_range_by_mode [THEN conjunct1])
  have b: "\<not> (\<exists>fn. mp3Build input_Mp3 ''CBR'' 4 1 True 5 = Inr fn)"
    by (simp add: mp3_rate_range_by_mode [THEN conjunct1])
  have c: "\<exists>fn. mp3BuildSink file_Mp3 ''VBR'' 4 1 True 5 = Inr fn"
    using cm up by (simp add: mp3_rate_range_by_mode [THEN conjunct2, THEN conjunct1])
  have d: "mp3Build input_Mp3 ''XYZ'' 128 1 True 5 = Inl (VBRModeNotSupported ''XYZ'')"
    using cm by (simp add: mp3_rate_range_by_mode [THEN conjunct2, THEN conjunct2,
          THEN conjunct1, rule_format])
  have e: "parseMP3Sink inputBuilders
      [''mp3-channel-mode'' \<mapsto> [''1''], ''mp3-bit-rate'' \<mapsto> [''128'']] = Inl ProvideBitRateMode"
    by (rule mp3_rate_range_by_mode [THEN conjunct2, THEN conjunct2, THEN conjunct2,
          THEN conjunct2, THEN conjunct1, rule_format, OF chan mode])
  from a b c d e show ?thesis
    by blast
qed

subsection \<open>C4: a maximum input size of 0\<close>

text \<open>
  C4.  \<open>Encode.InputMaxSize\<close> returns the limit configured for the format the URL
  names.  The handler passes that number to \<open>http.MaxBytesReader\<close> as it is: with a
  configured limit of 0 an upload of 1000 bytes to \<open>/.wav\<close> is answered with status 400,
  "request body too large", before the form is looked at.  The limit 0 is a limit of
  zero bytes in the handler, not the absence of a limit, although the page the form
  serves skips its own size check when the limit is 0.
\<close>

theorem zero_limit_rejects_upload:
  "InputMaxSize c ''/.wav'' = Inr (WavMaxSize c) \<and>
   InputMaxSize c ''/.mp3'' = Inr (Mp3MaxSize c) \<and>
   InputMaxSize c ''/.flac'' = Inr (FlacMaxSize c) \<and>
   Convert
     \<lparr> cfData = page,
       cfInputMaxSize = InputMaxSize \<lparr> WavMaxSize = 0, Mp3MaxSize = 0, FlacMaxSize = 0 \<rparr>,
       cfFileKey = FileKey, cfParseSink = parseSink \<rparr>
     filePump bufferSize tempDir
     \<lparr> Method = MethodPost, URLPath = ''/.wav'', BodyLength = 1000, FormValues = values \<rparr>
     env =
   [MaxBytesReader 0, ParseMultipartForm 0, Error RequestBodyTooLarge 400]"
  by (simp add: InputMaxSize_keys zero_limit)

subsection \<open>C5: the quality behind the use-quality gate\<close>

text \<open>
  C5.  When the field \<open>mp3-use-quality\<close> is absent or parses to false, the form parser
  does not read \<open>mp3-quality\<close>: the result is the same whatever that field holds, and a
  sink that is built has no quality set.  When the gate parses to true, \<open>mp3-quality\<close>
  is required (without it the parser returns an error), and a sink is built only from a
  quality between 0 and 9, which the sink then carries.  The builders alone behave the
  same on their \<open>useQuality\<close> and \<open>quality\<close> arguments.
\<close>

theorem quality_behind_gate:
  "(Get data ''mp3-use-quality'' = [] \<longrightarrow>
      parseBoolValue data ''mp3-use-quality'' ''mp3 quality'' = Inr False) \<and>
   (parseBoolValue data ''mp3-use-quality'' ''mp3 quality'' = Inr False \<longrightarrow>
      parseMP3Sink inp (data(''mp3-quality'' := v)) = parseMP3Sink inp data) \<and>
   (parseBoolValue data ''mp3-use-quality'' ''mp3 quality'' = Inr False \<longrightarrow>
      (parseMP3Sink fileBuilders data = Inr fn \<longrightarrow> Quality (build fn ws) = None) \<and>
      (parseMP3Sink inputBuilders data = Inr fn \<longrightarrow> Quality (build fn ws) = None)) \<and>
   (parseBoolValue data ''mp3-use-quality'' ''mp3 quality'' = Inr True \<longrightarrow>
      Get data ''mp3-quality'' = [] \<longrightarrow> (\<exists>err. parseMP3Sink inp data = Inl err)) \<and>
   (parseBoolValue data ''mp3-use-quality'' ''mp3 quality'' = Inr True \<longrightarrow>
      parseMP3Sink fileBuilders data = Inr fn \<or> parseMP3Sink inputBuilders data = Inr fn \<longrightarrow>
      (\<exists>quality. parseIntValue data ''mp3-quality'' ''mp3 quality'' = Inr quality \<and>
         0 \<le> quality \<and> quality \<le> 9 \<and> Quality (build fn ws) = Some quality)) \<and>
   (mp3BuildSink f m br cm False q = Inr fn \<or> mp3Build f m br cm False q = Inr fn \<longrightarrow>
      Quality (build fn ws) = None) \<and>
   (mp3BuildSink f m br cm True q = Inr fn \<or> mp3Build f m br cm True q = Inr fn \<longrightarrow>
      0 \<le> q \<and> q \<le> 9 \<and> Quality (build fn ws) = Some q) \<and>
   ((\<exists>fn. mp3BuildSink f m br cm False q = Inr fn) =
      (\<exists>fn. mp3BuildSink f m br cm False q' = Inr fn))"
proof -
  have absent: "Get data ''mp3-use-quality'' = [] \<longrightarrow>
      parseBoolValue data ''mp3-use-quality'' ''mp3 quality'' = Inr False"
    by (simp add: parseBoolValue_absent)
  have unread: "parseBoolValue data ''mp3-use-quality'' ''mp3 quality'' = Inr False \<longrightarrow>
      parseMP3Sink inp (data(''mp3-quality'' := v)) = parseMP3Sink inp data"
    by (simp add: parseMP3Sink_quality_irrelevant)
  have omitted: "parseBoolValue data ''mp3-use-quality'' ''mp3 quality'' = Inr False \<longrightarrow>
      (parseMP3Sink fileBuilders data = Inr fn \<longrightarrow> Quality (build fn ws) = None) \<and>
      (parseMP3Sink inputBuilders data = Inr fn \<longrightarrow> Quality (build fn ws) = None)"
    using parseMP3Sink_file_gate_off [of data fn ws] parseMP3Sink_input_gate_off [of data fn ws]
    by blast
  have required: "parseBoolValue data ''mp3-use-quality'' ''mp3 quality'' = Inr True \<longrightarrow>
      Get data ''mp3-quality'' = [] \<longrightarrow> (\<exists>err. parseMP3Sink inp data = Inl err)"
    using parseMP3Sink_quality_required [of data inp] by blast
  have validated: "parseBoolValue data ''mp3-use-quality'' ''mp3 quality'' = Inr True \<longrightarrow>
      parseMP3Sink fileBuilders data = Inr fn \<or> parseMP3Sink inputBuilders data = Inr fn \<longrightarrow>
      (\<exists>quality. parseIntValue data ''mp3-quality'' ''mp3 quality'' = Inr quality \<and>
         0 \<le> quality \<and> quality \<le> 9 \<and> Quality (build fn ws) = Some quality)"
    using parseMP3Sink_file_gate_on [of data fn ws] parseMP3Sink_input_gate_on [of data fn ws]
    by blast
  have gate_off: "mp3BuildSink f m br cm False q = Inr fn \<or> mp3Build f m br cm False q = Inr fn \<longrightarrow>
      Quality (build fn ws) = None"
    using mp3BuildSink_gate_off [of f m br cm q fn ws] mp3Build_gate_off [of f m br cm q fn ws]
    by blast
  have gate_on: "mp3BuildSink f m br cm True q = Inr fn \<or> mp3Build f m br cm True q = Inr fn \<longrightarrow>
      0 \<le> q \<and> q \<le> 9 \<and> Quality (build fn ws) = Some q"
    using mp3BuildSink_gate_on [of f m br cm q fn ws] mp3Build_gate_on [of f m br cm q fn ws]
    by blast
  have indifferent: "(\<exists>fn. mp3BuildSink f m br cm False q = Inr fn) =
      (\<exists>fn. mp3BuildSink f m br cm False q' = Inr fn)"
    by (simp add: mp3BuildSink_def Let_def finishMp3_def split: option.splits)
  show ?thesis
    by (intro conjI absent unread omitted required validated gate_off gate_on indifferent)
qed

text \<open>
  With the gate on and a quality of 7 the sink carries the quality 7; with the gate on
  and no quality the form is rejected; with the gate absent the field is not looked at.
\<close>

theorem quality_behind_gate_witness:
  "parseMP3Sink fileBuilders
     [''mp3-channel-mode'' \<mapsto> [''1''], ''mp3-bit-rate-mode'' \<mapsto> [''VBR''],
      ''mp3-vbr-quality'' \<mapsto> [''4''], ''mp3-use-quality'' \<mapsto> [''true''],
      ''mp3-quality'' \<mapsto> [''7'']] = Inr (Mp3Build (VBR 4) 1 True 7) \<and>
   Quality (build (Mp3Build (VBR 4) 1 True 7) ()) = Some 7 \<and>
   (\<exists>err. parseMP3Sink fileBuilders
     [''mp3-channel-mode'' \<mapsto> [''1''], ''mp3-bit-rate-mode'' \<mapsto> [''VBR''],
      ''mp3-vbr-quality'' \<mapsto> [''4''], ''mp3-use-quality'' \<mapsto> [''true'']] = Inl err) \<and>
   Quality (build (Mp3Build (VBR 4) 1 False 0) ()) = None"
proof -
  let ?full = "[''mp3-channel-mode'' \<mapsto> [''1''], ''mp3-bit-rate-mode'' \<mapsto> [''VBR''],
      ''mp3-vbr-quality'' \<mapsto> [''4''], ''mp3-use-quality'' \<mapsto> [''true''],
      ''mp3-quality'' \<mapsto> [''7'']]"
  let ?missing = "[''mp3-channel-mode'' \<mapsto> [''1''], ''mp3-bit-rate-mode'' \<mapsto> [''VBR''],
      ''mp3-vbr-quality'' \<mapsto> [''4''], ''mp3-use-quality'' \<mapsto> [''true'']]"
  have gate: "parseBoolValue ?full ''mp3-use-quality'' ''mp3 quality'' = Inr True"
    by code_simp
  have built: "parseMP3Sink fileBuilders ?full = Inr (Mp3Build (VBR 4) 1 True 7)"
    by code_simp
  have gate': "parseBoolValue ?missing ''mp3-use-quality'' ''mp3 quality'' = Inr True"
    by code_simp
  have none: "Get ?missing ''mp3-quality'' = []"
    by code_simp
  have sink_off: "mp3BuildSink file_Mp3 ''VBR'' 4 1 False 0 = Inr (Mp3Build (VBR 4) 1 False 0)"
    by code_simp
  have a: "\<exists>quality. parseIntValue ?full ''mp3-quality'' ''mp3 quality'' = Inr quality \<and>
         0 \<le> quality \<and> quality \<le> 9 \<and>
         Quality (build (Mp3Build (VBR 4) 1 True 7) ()) = Some quality"
    by (rule quality_behind_gate [where data = ?full, THEN conjunct2, THEN conjunct2,
          THEN conjunct2, THEN conjunct2, THEN conjunct1, rule_format,
          OF gate disjI1 [OF built]])
  have b: "\<exists>err. parseMP3Sink fileBuilders ?missing = Inl err"
    by (rule quality_behind_gate [where data = ?missing, THEN conjunct2, THEN conjunct2,
          THEN conjunct2, THEN conjunct1, rule_format, OF gate' none])
  have c: "Quality (build (Mp3Build (VBR 4) 1 False 0) ()) = None"
    by (rule quality_behind_gate [THEN conjunct2, THEN conjunct2, THEN conjunct2,
          THEN conjunct2, THEN conjunct2, THEN conjunct1, rule_format,
          OF disjI1 [OF sink_off]])
  have d: "Quality (build (Mp3Build (VBR 4) 1 True 7) ()) = Some 7"
    by (simp add: SetQuality_def)
  from a b c d built show ?thesis
    by blast
qed

subsection \<open>C6: the bit depths of a WAV sink\<close>

text \<open>
  C6.  \<open>input.Wav.Build\<close> and \<open>file.Wav.BuildSink\<close> return a build function exactly
  for the bit depths 8, 16, 24 and 32.  For the bit depth 11 both return "Bit depth 11 is
  not supported", and a request for WAV output with that bit depth makes the handler
  create no temporary file.
\<close>

theorem wav_bit_depth_domain:
  "((\<exists>fn. wavBuild input_Wav b = Inr fn) = (b \<in> {8, 16, 24, 32})) \<and>
   ((\<exists>fn. wavBuildSink file_Wav b = Inr fn) = (b \<in> {8, 16, 24, 32})) \<and>
   wavBuild input_Wav 11 = Inl (BitDepthNotSupported 11) \<and>
   wavBuildSink file_Wav 11 = Inl (BitDepthNotSupported 11) \<and>
   (ToLower (Get (FormValues r) ''format'') = ''.wav'' \<longrightarrow>
    Get (FormValues r) ''wav-bit-depth'' = ''11'' \<longrightarrow>
      TempFile d \<notin> set (Convert (EncodeForm inputBuilders page c) filePump bufferSize tempDir
        r env) \<and>
      TempFile d \<notin> set (Convert (EncodeForm fileBuilders page c) filePump bufferSize tempDir
        r env))"
proof -
  have eleven: "wavBuild input_Wav 11 = Inl (BitDepthNotSupported 11)"
    "wavBuildSink file_Wav 11 = Inl (BitDepthNotSupported 11)"
    by (simp_all add: wavBuild_def wavBuildSink_def input_Wav_def file_Wav_def BitDepth8_def
        BitDepth16_def BitDepth24_def BitDepth32_def)
  have untouched: "ToLower (Get (FormValues r) ''format'') = ''.wav'' \<longrightarrow>
    Get (FormValues r) ''wav-bit-depth'' = ''11'' \<longrightarrow>
      TempFile d \<notin> set (Convert (EncodeForm inputBuilders page c) filePump bufferSize tempDir
        r env) \<and>
      TempFile d \<notin> set (Convert (EncodeForm fileBuilders page c) filePump bufferSize tempDir
        r env)"
  proof (intro impI)
    assume "ToLower (Get (FormValues r) ''format'') = ''.wav''"
      and "Get (FormValues r) ''wav-bit-depth'' = ''11''"
    then have "fst (ParseSink inputBuilders (FormValues r)) = Inl (BitDepthNotSupported 11)"
      and "fst (ParseSink fileBuilders (FormValues r)) = Inl (BitDepthNotSupported 11)"
      using wav_request_rejected [of "FormValues r"] by simp_all
    then have "fst (cfParseSink (EncodeForm inputBuilders page c) (FormValues r)) =
        Inl (BitDepthNotSupported 11)"
      and "fst (cfParseSink (EncodeForm fileBuilders page c) (FormValues r)) =
        Inl (BitDepthNotSupported 11)"
      by (simp_all add: EncodeForm_def)
    then show "TempFile d \<notin> set (Convert (EncodeForm inputBuilders page c) filePump bufferSize
        tempDir r env) \<and>
      TempFile d \<notin> set (Convert (EncodeForm fileBuilders page c) filePump bufferSize tempDir
        r env)"
      by (simp add: Convert_rejected)
  qed
  show ?thesis
    by (intro conjI wavBuild_accepts wavBuildSink_accepts eleven untouched)
qed

text \<open>
  The request of the specification: the whole run is the size limit, the form file, the
  error answer and the close of the upload.
\<close>

theorem wav_bit_depth_domain_witness:
  "(\<exists>fn. wavBuild input_Wav 16 = Inr fn) \<and>
   \<not> (\<exists>fn. wavBuild input_Wav 11 = Inr fn) \<and>
   TempFile ''tmp'' \<notin> set (Convert (EncodeForm inputBuilders [] exampleLimits) Pump 1024 ''tmp''
      (exampleRequest [''format'' \<mapsto> [''.wav''], ''wav-bit-depth'' \<mapsto> [''11'']]) exampleEnv) \<and>
   Convert (EncodeForm inputBuilders [] exampleLimits) Pump 1024 ''tmp''
      (exampleRequest [''format'' \<mapsto> [''.wav''], ''wav-bit-depth'' \<mapsto> [''11'']]) exampleEnv =
     [MaxBytesReader 2000, ParseMultipartForm 2000, FormFile ''input-file'',
      Error (BitDepthNotSupported 11) 400, Close_f]"
proof -
  let ?r = "exampleRequest [''format'' \<mapsto> [''.wav''], ''wav-bit-depth'' \<mapsto> [''11'']]"
  have fmt: "ToLower (Get (FormValues ?r) ''format'') = ''.wav''"
    by code_simp
  have depth: "Get (FormValues ?r) ''wav-bit-depth'' = ''11''"
    by code_simp
  have a: "\<exists>fn. wavBuild input_Wav 16 = Inr fn"
    by (simp add: wav_bit_depth_domain [THEN conjunct1])
  have b: "\<not> (\<exists>fn. wavBuild input_Wav 11 = Inr fn)"
    by (simp add: wav_bit_depth_domain [THEN conjunct1])
  have c: "TempFile ''tmp'' \<notin> set (Convert (EncodeForm inputBuilders [] exampleLimits) Pump 1024
      ''tmp'' ?r exampleEnv)"
    by (rule wav_bit_depth_domain [THEN conjunct2, THEN conjunct2, THEN conjunct2,
          THEN conjunct2, rule_format, OF fmt depth, THEN conjunct1])
  have run: "Convert (EncodeForm inputBuilders [] exampleLimits) Pump 1024 ''tmp'' ?r exampleEnv =
     [MaxBytesReader 2000, ParseMultipartForm 2000, FormFile ''input-file'',
      Error (BitDepthNotSupported 11) 400, Close_f]"
    by code_simp
  from a b c run show ?thesis
    by blast
qed

subsection \<open>C7: resolution of the input and of the output format\<close>

text \<open>
  C7.  \<open>file.Pump\<close> decides by the extension of the file name in lower case: the WAV
  pump for \<open>.wav\<close> and \<open>.wave\<close>, the MP3 pump for \<open>.mp3\<close>, the FLAC pump for
  \<open>.flac\<close>, and otherwise the error "File has unsupported extension" with the file
  name; two names that agree in lower case resolve alike.  \<open>input.HasExtension\<close>
  compares the suffixes of the name in lower case, so it does not tell such names apart
  either.  \<open>Encode.ParseSink\<close> decides by the value of \<open>format\<close> in lower case:
  \<open>.wav\<close> is parsed as WAV, \<open>.mp3\<close> as MP3, any other name gives the error
  "Unsupported format", and writing the value in lower case changes nothing.  All three
  are functions of their arguments alone; they have no effect that could be observed.
\<close>

theorem format_resolution:
  "Pump fileName =
     (if ToLower (Ext fileName) = ''.wav'' \<or> ToLower (Ext fileName) = ''.wave'' then Inr WavPump
      else if ToLower (Ext fileName) = ''.mp3'' then Inr Mp3Pump
      else if ToLower (Ext fileName) = ''.flac'' then Inr FlacPump
      else Inl (UnsupportedExtension fileName)) \<and>
   (ToLower a = ToLower b \<longrightarrow> (Pump a = Inr p) = (Pump b = Inr p)) \<and>
   HasExtension fileName exts = list_ex (HasSuffix (ToLower fileName)) exts \<and>
   (ToLower a = ToLower b \<longrightarrow> HasExtension a exts = HasExtension b exts) \<and>
   (ToLower (Get data ''format'') = ''.wav'' \<longrightarrow>
      fst (ParseSink inp data) = parseWAVSink inp data) \<and>
   (ToLower (Get data ''format'') = ''.mp3'' \<longrightarrow>
      fst (ParseSink inp data) = parseMP3Sink inp data) \<and>
   (ToLower (Get data ''format'') \<noteq> ''.wav'' \<longrightarrow> ToLower (Get data ''format'') \<noteq> ''.mp3'' \<longrightarrow>
      ParseSink inp data = (Inl (UnsupportedFormat (ToLower (Get data ''format''))), [])) \<and>
   ParseSink inp (data(''format'' \<mapsto> [ToLower v])) = ParseSink inp (data(''format'' \<mapsto> [v]))"
proof -
  have pump: "ToLower a = ToLower b \<longrightarrow> (Pump a = Inr p) = (Pump b = Inr p)"
    using Pump_case_insensitive [of a b p] by blast
  have suffix: "HasExtension fileName exts = list_ex (HasSuffix (ToLower fileName)) exts"
    by (simp add: HasExtension_def)
  have has: "ToLower a = ToLower b \<longrightarrow> HasExtension a exts = HasExtension b exts"
    using HasExtension_case_insensitive [of a b exts] by blast
  have wav: "ToLower (Get data ''format'') = ''.wav'' \<longrightarrow>
      fst (ParseSink inp data) = parseWAVSink inp data"
    by (simp add: ParseSink_by_name)
  have mp3: "ToLower (Get data ''format'') = ''.mp3'' \<longrightarrow>
      fst (ParseSink inp data) = parseMP3Sink inp data"
    by (simp add: ParseSink_by_name)
  have other: "ToLower (Get data ''format'') \<noteq> ''.wav'' \<longrightarrow>
      ToLower (Get data ''format'') \<noteq> ''.mp3'' \<longrightarrow>
      ParseSink inp data = (Inl (UnsupportedFormat (ToLower (Get data ''format''))), [])"
    by (simp add: ParseSink_unsupported)
  show ?thesis
    by (intro conjI Pump_ext pump suffix has wav mp3 other ParseSink_case_insensitive)
qed

text \<open>
  \<open>Track.WAV\<close> and \<open>track.wav\<close> both resolve to the WAV pump, \<open>notes.txt\<close> is
  unsupported, and the output format \<open>.OGG\<close> is unsupported under its name in lower
  case.
\<close>

theorem format_resolution_witness:
  "Pump ''Track.WAV'' = Inr WavPump \<and> Pump ''track.wav'' = Inr WavPump \<and>
   Pump ''notes.txt'' = Inl (UnsupportedExtension ''notes.txt'') \<and>
   HasExtension ''Track.WAV'' [''.wav'', ''.wave''] = HasExtension ''track.wav'' [''.wav'', ''.wave''] \<and>
   ParseSink inputBuilders [''format'' \<mapsto> [''.OGG'']] = (Inl (UnsupportedFormat ''.ogg''), [])"
proof -
  have same: "ToLower ''Track.WAV'' = ToLower ''track.wav''"
    by code_simp
  have lower: "Pump ''track.wav'' = Inr WavPump"
    by code_simp
  have plain: "ToLower (Ext ''notes.txt'') = ''.txt''"
    by code_simp
  have ogg: "ToLower (Get [''format'' \<mapsto> [''.OGG'']] ''format'') = ''.ogg''"
    by code_simp
  have a: "Pump ''Track.WAV'' = Inr WavPump"
    using format_resolution [THEN conjunct2, THEN conjunct1, rule_format, OF same, of WavPump]
      lower by simp
  have b: "Pump ''notes.txt'' = Inl (UnsupportedExtension ''notes.txt'')"
    using plain by (simp add: format_resolution [THEN conjunct1])
  have c: "HasExtension ''Track.WAV'' [''.wav'', ''.wave''] =
      HasExtension ''track.wav'' [''.wav'', ''.wave'']"
    by (rule format_resolution [THEN conjunct2, THEN conjunct2, THEN conjunct2, THEN conjunct1,
          rule_format, OF same])
  have d: "ParseSink inputBuilders [''format'' \<mapsto> [''.OGG'']] =
      (Inl (UnsupportedFormat ''.ogg''), [])"
    using format_resolution [where data = "[''format'' \<mapsto> [''.OGG'']]" and inp = inputBuilders,
        THEN conjunct2, THEN conjunct2, THEN conjunct2, THEN conjunct2, THEN conjunct2,
        THEN conjunct2, THEN conjunct1] ogg by simp
  from a lower b c d show ?thesis
    by blast
qed

subsection \<open>C8: a failure to release is only logged\<close>

text \<open>
  C8.  What the handler sends to the caller does not depend on whether closing or
  removing the temporary file succeeds: the calls on the response writer are the same for
  every outcome of the two.  \<open>cleanUp\<close> itself makes no call on the response writer; a
  failed close and a failed removal are each written to the log.  In particular a
  conversion that was transferred without error is answered without any error, whatever
  the release does.
\<close>

theorem release_failure_only_logged:
  "response (Convert form filePump bufferSize tempDir r (env\<lparr>closeTemp := a, removeTemp := b\<rparr>)) =
     response (Convert form filePump bufferSize tempDir r env) \<and>
   response (cleanUp env) = [] \<and>
   (closeTemp env = Some err \<longrightarrow> Log ''Failed to close temp file'' \<in> set (cleanUp env)) \<and>
   (removeTemp env = Some err \<longrightarrow> Log ''Failed to delete temp file'' \<in> set (cleanUp env)) \<and>
   (Copy \<in> set (Convert form filePump bufferSize tempDir r env) \<longrightarrow> copy env = None \<longrightarrow>
      Error e code \<notin> set (Convert form filePump bufferSize tempDir r env))"
proof -
  have closing: "closeTemp env = Some err \<longrightarrow>
      Log ''Failed to close temp file'' \<in> set (cleanUp env)"
    by (simp add: cleanUp_logs)
  have removing: "removeTemp env = Some err \<longrightarrow>
      Log ''Failed to delete temp file'' \<in> set (cleanUp env)"
    by (simp add: cleanUp_logs)
  have delivered: "Copy \<in> set (Convert form filePump bufferSize tempDir r env) \<longrightarrow>
      copy env = None \<longrightarrow>
      Error e code \<notin> set (Convert form filePump bufferSize tempDir r env)"
    using delivered_no_error [of form filePump bufferSize tempDir r env e code] by blast
  show ?thesis
    by (intro conjI response_Convert response_cleanUp closing removing delivered)
qed

text \<open>
  A conversion to WAV in which both the close and the removal fail: the caller receives
  the headers and the file, and the two failures are in the log.
\<close>

theorem release_failure_only_logged_witness:
  "Convert (EncodeForm inputBuilders [] exampleLimits) Pump 1024 ''tmp''
      (exampleRequest [''format'' \<mapsto> [''.wav''], ''wav-bit-depth'' \<mapsto> [''16'']])
      (exampleEnv\<lparr>closeTemp := Some (External ''close''), removeTemp := Some (External ''remove'')\<rparr>) =
     [MaxBytesReader 2000, ParseMultipartForm 2000, FormFile ''input-file'', TempFile ''tmp'',
      PipeNew 1024, PipeRun, Seek, Stat, SetContentDisposition ''result'' 1 ''.wav'',
      SetContentType ''.wav'', SetContentLength 4096, Copy,
      Close_tempFile, Log ''Failed to close temp file'',
      Remove_tempFile, Log ''Failed to delete temp file'', Close_f] \<and>
   response (Convert (EncodeForm inputBuilders [] exampleLimits) Pump 1024 ''tmp''
      (exampleRequest [''format'' \<mapsto> [''.wav''], ''wav-bit-depth'' \<mapsto> [''16'']])
      (exampleEnv\<lparr>closeTemp := Some (External ''close''), removeTemp := Some (External ''remove'')\<rparr>)) =
   response (Convert (EncodeForm inputBuilders [] exampleLimits) Pump 1024 ''tmp''
      (exampleRequest [''format'' \<mapsto> [''.wav''], ''wav-bit-depth'' \<mapsto> [''16'']]) exampleEnv) \<and>
   Error (External ''close'') 500 \<notin> set (Convert (EncodeForm inputBuilders [] exampleLimits) Pump
      1024 ''tmp'' (exampleRequest [''format'' \<mapsto> [''.wav''], ''wav-bit-depth'' \<mapsto> [''16'']])
      (exampleEnv\<lparr>closeTemp := Some (External ''close''), removeTemp := Some (External ''remove'')\<rparr>))"
proof -
  let ?r = "exampleRequest [''format'' \<mapsto> [''.wav''], ''wav-bit-depth'' \<mapsto> [''16'']]"
  let ?env = "exampleEnv\<lparr>closeTemp := Some (External ''close''),
      removeTemp := Some (External ''remove'')\<rparr>"
  have run: "Convert (EncodeForm inputBuilders [] exampleLimits) Pump 1024 ''tmp'' ?r ?env =
     [MaxBytesReader 2000, ParseMultipartForm 2000, FormFile ''input-file'', TempFile ''tmp'',
      PipeNew 1024, PipeRun, Seek, Stat, SetContentDisposition ''result'' 1 ''.wav'',
      SetContentType ''.wav'', SetContentLength 4096, Copy,
      Close_tempFile, Log ''Failed to close temp file'',
      Remove_tempFile, Log ''Failed to delete temp file'', Close_f]"
    by code_simp
  then have sent: "Copy \<in> set (Convert (EncodeForm inputBuilders [] exampleLimits) Pump 1024
      ''tmp'' ?r ?env)"
    by simp
  have copied: "copy ?env = None"
    by (simp add: exampleEnv_def)
  have same: "response (Convert (EncodeForm inputBuilders [] exampleLimits) Pump 1024 ''tmp'' ?r
      ?env) =
    response (Convert (EncodeForm inputBuilders [] exampleLimits) Pump 1024 ''tmp'' ?r exampleEnv)"
    by (rule release_failure_only_logged [THEN conjunct1])
  have clean: "Error (External ''close'') 500 \<notin> set (Convert (EncodeForm inputBuilders []
      exampleLimits) Pump 1024 ''tmp'' ?r ?env)"
    by (rule release_failure_only_logged [THEN conjunct2, THEN conjunct2, THEN conjunct2,
          THEN conjunct2, rule_format, OF sent copied])
  from run same clean show ?thesis
    by blast
qed

subsection \<open>C9: the two MP3 builders\<close>

text \<open>
  C9, as stated, fails: \<open>input.Mp3.Build\<close> compares the mode string as it is given,
  \<open>file.Mp3.BuildSink\<close> compares it in upper case.  On the mode \<open>vbr\<close> with rate 4 and
  channel mode 1 the first answers "VBR mode vbr is not supported" and the second builds
  a sink.
\<close>

theorem mp3_builders_differ_on_lower_case_mode:
  "mp3Build input_Mp3 ''vbr'' 4 1 False 0 = Inl (VBRModeNotSupported ''vbr'') \<and>
   mp3BuildSink file_Mp3 ''vbr'' 4 1 False 0 = Inr (Mp3Build (VBR 4) 1 False 0)"
  by code_simp

text \<open>
  C9, amended.  \<open>file.Mp3.BuildSink\<close> decides on a parameter tuple as
  \<open>input.Mp3.Build\<close> decides on the tuple with the mode string in upper case: the same
  build function, or the same error, except that an unsupported mode is reported by each
  in its own words.  So the two make the same accept or reject decision on every tuple
  whose mode string is in upper case already, and \<open>BuildSink\<close> accepts, with the same
  result, every tuple that \<open>Build\<close> accepts.
\<close>

theorem mp3_builders_agree_up_to_case:
  "mp3BuildSink file_Mp3 m br cm uq q =
     (case mp3Build input_Mp3 (ToUpper m) br cm uq q of
        Inl (VBRModeNotSupported x) \<Rightarrow> Inl (BitRateModeNotSupported m)
      | res \<Rightarrow> res) \<and>
   (ToUpper m = m \<longrightarrow>
      (\<exists>fn. mp3BuildSink file_Mp3 m br cm uq q = Inr fn) =
      (\<exists>fn. mp3Build input_Mp3 m br cm uq q = Inr fn)) \<and>
   (mp3Build input_Mp3 m br cm uq q = Inr fn \<longrightarrow> mp3BuildSink file_Mp3 m br cm uq q = Inr fn)"
proof -
  have general: "mp3BuildSink file_Mp3 m br cm uq q =
     (case mp3Build input_Mp3 (ToUpper m) br cm uq q of
        Inl (VBRModeNotSupported x) \<Rightarrow> Inl (BitRateModeNotSupported m)
      | res \<Rightarrow> res)"
    by (simp add: tables_equal mp3BuildSink_as_Build)
  have upper: "ToUpper m = m \<longrightarrow>
      (\<exists>fn. mp3BuildSink file_Mp3 m br cm uq q = Inr fn) =
      (\<exists>fn. mp3Build input_Mp3 m br cm uq q = Inr fn)"
    unfolding mp3Build_accepts mp3BuildSink_accepts
    by (auto simp: file_Mp3_def input_Mp3_def)
  have accepted: "mp3Build input_Mp3 m br cm uq q = Inr fn \<longrightarrow>
      mp3BuildSink file_Mp3 m br cm uq q = Inr fn"
  proof
    assume built: "mp3Build input_Mp3 m br cm uq q = Inr fn"
    then have "ToUpper m = m"
      by (rule mp3Build_accepted_upper)
    with built general show "mp3BuildSink file_Mp3 m br cm uq q = Inr fn"
      by simp
  qed
  show ?thesis
    by (intro conjI general upper accepted)
qed

text \<open>On the mode \<open>VBR\<close> the two builders return the same build function.\<close>

theorem mp3_builders_agree_up_to_case_witness:
  "ToUpper ''VBR'' = ''VBR'' \<and>
   mp3Build input_Mp3 ''VBR'' 4 1 False 0 = Inr (Mp3Build (VBR 4) 1 False 0) \<and>
   mp3BuildSink file_Mp3 ''VBR'' 4 1 False 0 = Inr (Mp3Build (VBR 4) 1 False 0) \<and>
   ((\<exists>fn. mp3BuildSink file_Mp3 ''VBR'' 4 1 False 0 = Inr fn) =
    (\<exists>fn. mp3Build input_Mp3 ''VBR'' 4 1 False 0 = Inr fn))"
proof -
  have up: "ToUpper ''VBR'' = ''VBR''"
    by code_simp
  have built: "mp3Build input_Mp3 ''VBR'' 4 1 False 0 = Inr (Mp3Build (VBR 4) 1 False 0)"
    by code_simp
  have a: "mp3BuildSink file_Mp3 ''VBR'' 4 1 False 0 = Inr (Mp3Build (VBR 4) 1 False 0)"
    by (rule mp3_builders_agree_up_to_case [THEN conjunct2, THEN conjunct2, rule_format,
          OF built])
  have b: "(\<exists>fn. mp3BuildSink file_Mp3 ''VBR'' 4 1 False 0 = Inr fn) =
    (\<exists>fn. mp3Build input_Mp3 ''VBR'' 4 1 False 0 = Inr fn)"
    by (rule mp3_builders_agree_up_to_case [THEN conjunct2, THEN conjunct1, rule_format,
          OF up])
  from up built a b show ?thesis
    by blast
qed

subsection \<open>C10: the extension returned by ParseSink\<close>

text \<open>
  C10.  \<open>Encode.ParseSink\<close> returns a non-empty extension exactly when it returns no
  error; with an error, be it an unsupported format or a rejected parameter, the
  extension is the empty string.  This holds whatever the sink builders behind the
  parser answer.
\<close>

theorem ParseSink_extension_iff_no_error:
  "((snd (ParseSink inp data) \<noteq> []) = (\<exists>fn. fst (ParseSink inp data) = Inr fn)) \<and>
   (fst (ParseSink inp data) = Inl err \<longrightarrow> snd (ParseSink inp data) = [])"
proof -
  have nonempty: "WAV_DefaultExtension \<noteq> []" "MP3_DefaultExtension \<noteq> []"
    by (simp_all add: WAV_DefaultExtension_def MP3_DefaultExtension_def)
  then have "(snd (ParseSink inp data) \<noteq> []) = (\<exists>fn. fst (ParseSink inp data) = Inr fn)"
    by (auto simp: ParseSink_def Let_def split: sum.splits)
  moreover have "fst (ParseSink inp data) = Inl err \<longrightarrow> snd (ParseSink inp data) = []"
    by (auto simp: ParseSink_def Let_def split: sum.splits if_splits)
  ultimately show ?thesis
    by (rule conjI)
qed

text \<open>A form that is accepted, with its extension, and a form that is rejected.\<close>

theorem ParseSink_extension_iff_no_error_witness:
  "ParseSink inputBuilders [''format'' \<mapsto> [''.WAV''], ''wav-bit-depth'' \<mapsto> [''16'']] =
     (Inr (WavBuild 16), ''.wav'') \<and>
   fst (ParseSink inputBuilders [''format'' \<mapsto> [''.WAV''], ''wav-bit-depth'' \<mapsto> [''11'']]) =
     Inl (BitDepthNotSupported 11) \<and>
   snd (ParseSink inputBuilders [''format'' \<mapsto> [''.WAV''], ''wav-bit-depth'' \<mapsto> [''11'']]) = []"
proof -
  have ok: "ParseSink inputBuilders [''format'' \<mapsto> [''.WAV''], ''wav-bit-depth'' \<mapsto> [''16'']] =
     (Inr (WavBuild 16), ''.wav'')"
    by code_simp
  have rejected: "fst (ParseSink inputBuilders
      [''format'' \<mapsto> [''.WAV''], ''wav-bit-depth'' \<mapsto> [''11'']]) = Inl (BitDepthNotSupported 11)"
    by code_simp
  have "snd (ParseSink inputBuilders [''format'' \<mapsto> [''.WAV''], ''wav-bit-depth'' \<mapsto> [''11'']]) = []"
    by (rule ParseSink_extension_iff_no_error [THEN conjunct2, rule_format, OF rejected])
  with ok rejected show ?thesis
    by blast
qed

end
